theory Spec2Isabelle
  imports Complex_Main
begin

section \<open>Steady state of the OG-USA model: an embedding of \<^verbatim>\<open>Python/ogusa/SS.py\<close>\<close>

text \<open>
  The module computes with numpy arrays of floating-point numbers. The embedding keeps the
  one special value the source tests for, \<open>NaN\<close>, and reads every other number as a real:
  rounding, infinities and signed zeros are outside the model. A division by zero, which
  numpy answers with an infinity or a NaN and a warning, is \<open>NaN\<close> here.

  The file is a snapshot in the middle of a refactoring of its signatures, and the
  embedding reads it as follows.
  \<^item> Line 245, \<^verbatim>\<open>tax1_params = (J, S, retire, , )\<close>, is not Python; line 247 assigns the
    same name again. The embedding has line 247 only.
  \<^item> \<^verbatim>\<open>Euler_equation_solver\<close> reads \<^verbatim>\<open>tax_params\<close>, which its new signature no longer
    binds; \<^verbatim>\<open>SS_fsolve\<close>, \<^verbatim>\<open>function_to_minimize\<close> and \<^verbatim>\<open>run_steady_state\<close> read
    names of their former signatures too. Such names are parameters of the embedding.
  \<^item> The callers of \<^verbatim>\<open>Euler_equation_solver\<close> still pass the fifteen arguments of the
    former signature (kept in the comment above the definition); the embedding packs
    them into the tuple \<^verbatim>\<open>params\<close> that the body unpacks.
  \<^item> The modules \<^verbatim>\<open>household\<close>, \<^verbatim>\<open>tax\<close>, \<^verbatim>\<open>firm\<close>, \<^verbatim>\<open>utils\<close> and the root finder
    \<^verbatim>\<open>scipy.optimize.fsolve\<close> are not part of the sources: they are parameters, total
    functions collected in records.
\<close>

subsection \<open>Numbers\<close>

datatype npfloat = NaN | Fin real

datatype py_error = IndexError | ValueError | TypeError | UnboundLocalError

definition isnan :: "npfloat \<Rightarrow> bool" where
  "isnan x = (case x of NaN \<Rightarrow> True | Fin _ \<Rightarrow> False)"

instantiation npfloat :: "{plus, minus, times, inverse, abs, ord}"
begin

definition plus_npfloat :: "npfloat \<Rightarrow> npfloat \<Rightarrow> npfloat" where
  "plus_npfloat x y = (case x of NaN \<Rightarrow> NaN | Fin a \<Rightarrow> (case y of NaN \<Rightarrow> NaN | Fin b \<Rightarrow> Fin (a + b)))"

definition minus_npfloat :: "npfloat \<Rightarrow> npfloat \<Rightarrow> npfloat" where
  "minus_npfloat x y = (case x of NaN \<Rightarrow> NaN | Fin a \<Rightarrow> (case y of NaN \<Rightarrow> NaN | Fin b \<Rightarrow> Fin (a - b)))"

definition times_npfloat :: "npfloat \<Rightarrow> npfloat \<Rightarrow> npfloat" where
  "times_npfloat x y = (case x of NaN \<Rightarrow> NaN | Fin a \<Rightarrow> (case y of NaN \<Rightarrow> NaN | Fin b \<Rightarrow> Fin (a * b)))"

definition divide_npfloat :: "npfloat \<Rightarrow> npfloat \<Rightarrow> npfloat" where
  "divide_npfloat x y =
     (case x of NaN \<Rightarrow> NaN
      | Fin a \<Rightarrow> (case y of NaN \<Rightarrow> NaN | Fin b \<Rightarrow> if b = 0 then NaN else Fin (a / b)))"

definition inverse_npfloat :: "npfloat \<Rightarrow> npfloat" where
  "inverse_npfloat x = (case x of NaN \<Rightarrow> NaN | Fin b \<Rightarrow> if b = 0 then NaN else Fin (1 / b))"

definition abs_npfloat :: "npfloat \<Rightarrow> npfloat" where
  "abs_npfloat x = (case x of NaN \<Rightarrow> NaN | Fin a \<Rightarrow> Fin \<bar>a\<bar>)"

text \<open>A comparison with \<open>NaN\<close> on either side is false, as in IEEE arithmetic.\<close>

definition less_npfloat :: "npfloat \<Rightarrow> npfloat \<Rightarrow> bool" where
  "less_npfloat x y = (case x of NaN \<Rightarrow> False | Fin a \<Rightarrow> (case y of NaN \<Rightarrow> False | Fin b \<Rightarrow> a < b))"

definition less_eq_npfloat :: "npfloat \<Rightarrow> npfloat \<Rightarrow> bool" where
  "less_eq_npfloat x y = (case x of NaN \<Rightarrow> False | Fin a \<Rightarrow> (case y of NaN \<Rightarrow> False | Fin b \<Rightarrow> a \<le> b))"

instance ..

end

text \<open>\<^verbatim>\<open>a.max()\<close> of numpy: a \<open>NaN\<close> entry makes the maximum \<open>NaN\<close>; an empty array raises.\<close>

fun np_max_from :: "npfloat \<Rightarrow> npfloat list \<Rightarrow> npfloat" where
  "np_max_from m [] = m"
| "np_max_from m (x # xs) =
     np_max_from (case m of NaN \<Rightarrow> NaN | Fin a \<Rightarrow> (case x of NaN \<Rightarrow> NaN | Fin b \<Rightarrow> Fin (max a b))) xs"

definition np_max :: "npfloat list \<Rightarrow> py_error + npfloat" where
  "np_max xs = (case xs of [] \<Rightarrow> Inl ValueError | x # ys \<Rightarrow> Inr (np_max_from x ys))"

subsection \<open>Results and arrays\<close>

definition bindR :: "py_error + 'a \<Rightarrow> ('a \<Rightarrow> py_error + 'b) \<Rightarrow> py_error + 'b" where
  "bindR m f = (case m of Inl err \<Rightarrow> Inl err | Inr v \<Rightarrow> f v)"

text \<open>\<^verbatim>\<open>xs[i]\<close> on a one-dimensional array, with a non-negative index.\<close>

definition item :: "'a list \<Rightarrow> nat \<Rightarrow> py_error + 'a" where
  "item xs i = (if i < length xs then Inr (xs ! i) else Inl IndexError)"

text \<open>A two-dimensional array is the list of its rows; \<^verbatim>\<open>m[:, j]\<close> is a column.\<close>

definition column :: "'a list list \<Rightarrow> nat \<Rightarrow> py_error + 'a list" where
  "column m i = (if list_all (\<lambda>row. i < length row) m then Inr (map (\<lambda>row. row ! i) m) else Inl IndexError)"

text \<open>
  \<^verbatim>\<open>a[mask] = v\<close> with a boolean mask: the mask must have the shape of the array;
  the entries under a true mask become \<open>v\<close>, the others stay.
\<close>

definition mask_assign :: "'a list \<Rightarrow> bool list \<Rightarrow> 'a \<Rightarrow> py_error + 'a list" where
  "mask_assign a msk v =
     (if length msk = length a then Inr (map (\<lambda>(x, m). if m then v else x) (zip a msk))
      else Inl IndexError)"

subsection \<open>The household block: \<^verbatim>\<open>Euler_equation_solver\<close>\<close>

text \<open>
  The tuple \<^verbatim>\<open>params\<close> that \<^verbatim>\<open>Euler_equation_solver\<close> unpacks (lines 203 to 208), in the
  order of the source. Arrays of shape \<open>[S, J]\<close> are lists of \<open>S\<close> rows.
\<close>

record euler_params =
  ep_J :: nat
  ep_S :: nat
  ep_beta :: npfloat
  ep_sigma :: npfloat
  ep_ltilde :: npfloat
  ep_g_y :: npfloat
  ep_g_n_ss :: npfloat
  ep_tau_payroll :: npfloat
  ep_retire :: nat
  ep_mean_income_data :: npfloat
  ep_h_wealth :: npfloat
  ep_p_wealth :: npfloat
  ep_m_wealth :: npfloat
  ep_b_ellipse :: npfloat
  ep_upsilon :: npfloat
  ep_j :: nat
  ep_chi_b :: "npfloat list"
  ep_chi_n :: "npfloat list"
  ep_tau_bq :: "npfloat list"
  ep_rho :: "npfloat list"
  ep_lambdas :: "npfloat list"
  ep_omega :: "npfloat list"
  ep_e :: "npfloat list list"
  ep_analytical_mtrs :: bool
  ep_etr_params :: "npfloat list list"
  ep_mtrx_params :: "npfloat list list"
  ep_mtry_params :: "npfloat list list"

type_synonym tax_params = "bool \<times> npfloat list list \<times> npfloat list list \<times> npfloat list list"

type_synonym theta_params = "npfloat list list \<times> nat \<times> npfloat list \<times> npfloat list"

type_synonym tax1_params =
  "npfloat list \<times> npfloat \<times> string \<times> nat \<times> npfloat list list \<times> npfloat \<times> npfloat \<times> npfloat
   \<times> npfloat \<times> npfloat \<times> npfloat \<times> nat \<times> nat"

text \<open>
  The functions of \<^verbatim>\<open>household\<close> and \<^verbatim>\<open>tax\<close> that the body calls, with their arguments
  in the order of the calls (lines 216 to 251).
\<close>

record household_block =
  get_BQ :: "npfloat \<Rightarrow> npfloat list \<Rightarrow> npfloat list \<Rightarrow> npfloat \<Rightarrow> npfloat list \<Rightarrow> npfloat \<Rightarrow> string \<Rightarrow> npfloat"
  replacement_rate_vals :: "npfloat list \<Rightarrow> npfloat \<Rightarrow> npfloat \<Rightarrow> theta_params \<Rightarrow> npfloat"
  euler_savings_func ::
    "npfloat \<Rightarrow> npfloat \<Rightarrow> npfloat list \<Rightarrow> npfloat list \<Rightarrow> npfloat list \<Rightarrow> npfloat list \<Rightarrow> npfloat list
     \<Rightarrow> npfloat \<Rightarrow> npfloat \<Rightarrow> npfloat \<Rightarrow> npfloat \<Rightarrow> tax_params \<Rightarrow> euler_params \<Rightarrow> npfloat \<Rightarrow> npfloat
     \<Rightarrow> npfloat list \<Rightarrow> npfloat \<Rightarrow> npfloat list"
  euler_labor_leisure_func ::
    "npfloat \<Rightarrow> npfloat \<Rightarrow> npfloat list \<Rightarrow> npfloat list \<Rightarrow> npfloat list \<Rightarrow> npfloat list
     \<Rightarrow> npfloat \<Rightarrow> npfloat \<Rightarrow> npfloat \<Rightarrow> npfloat list \<Rightarrow> tax_params \<Rightarrow> euler_params \<Rightarrow> npfloat
     \<Rightarrow> npfloat \<Rightarrow> npfloat \<Rightarrow> npfloat list"
  total_taxes ::
    "npfloat \<Rightarrow> npfloat \<Rightarrow> npfloat list \<Rightarrow> npfloat list \<Rightarrow> npfloat \<Rightarrow> npfloat \<Rightarrow> npfloat
     \<Rightarrow> nat option \<Rightarrow> bool \<Rightarrow> tax1_params \<Rightarrow> npfloat list"
  get_cons ::
    "npfloat \<Rightarrow> npfloat list \<Rightarrow> npfloat \<Rightarrow> npfloat list \<Rightarrow> npfloat list \<Rightarrow> npfloat \<Rightarrow> npfloat
     \<Rightarrow> npfloat list \<Rightarrow> euler_params \<Rightarrow> npfloat list \<Rightarrow> npfloat list"

definition Euler_equation_solver ::
  "household_block \<Rightarrow> tax_params \<Rightarrow> npfloat list \<Rightarrow> npfloat \<Rightarrow> npfloat \<Rightarrow> npfloat \<Rightarrow> npfloat
   \<Rightarrow> euler_params \<Rightarrow> py_error + npfloat list" where
  "Euler_equation_solver c tax_params guesses r w T_H factor params =
    (let b_guess = take (ep_S params) guesses;
         n_guess = drop (ep_S params) guesses;
         b_s = Fin 0 # butlast b_guess;
         b_splus1 = b_guess;
         b_splus2 = tl b_guess @ [Fin 0]
     in
     bindR (item (ep_lambdas params) (ep_j params)) (\<lambda>lambdas_j.
     bindR (column (ep_e params) (ep_j params)) (\<lambda>e_j.
     bindR (item (ep_chi_b params) (ep_j params)) (\<lambda>chi_b_j.
     bindR (item (ep_tau_bq params) (ep_j params)) (\<lambda>tau_bq_j.
     let BQ = get_BQ c r b_splus1 (ep_omega params) lambdas_j (ep_rho params) (ep_g_n_ss params) ''SS'';
         theta_params = (ep_e params, ep_J params, ep_omega params, ep_lambdas params);
         theta = replacement_rate_vals c n_guess w factor theta_params;
         error1 = euler_savings_func c w r e_j n_guess b_s b_splus1 b_splus2 BQ factor T_H
                    chi_b_j tax_params params theta tau_bq_j (ep_rho params) lambdas_j;
         error2 = euler_labor_leisure_func c w r e_j n_guess b_s b_splus1 BQ factor T_H
                    (ep_chi_n params) tax_params params theta tau_bq_j lambdas_j;
         mask1 = map (\<lambda>x. x < Fin 0) n_guess;
         mask2 = map (\<lambda>x. ep_ltilde params < x) n_guess;
         mask3 = map (\<lambda>x. x \<le> Fin 0) b_guess;
         mask4 = map isnan n_guess;
         mask5 = map isnan b_guess
     in
     bindR (mask_assign error2 mask1 (Fin (10 ^ 14))) (\<lambda>error2.
     bindR (mask_assign error2 mask2 (Fin (10 ^ 14))) (\<lambda>error2.
     bindR (mask_assign error1 mask3 (Fin (10 ^ 14))) (\<lambda>error1.
     bindR (mask_assign error1 mask5 (Fin (10 ^ 14))) (\<lambda>error1.
     bindR (mask_assign error2 mask4 (Fin (10 ^ 14))) (\<lambda>error2.
     let tax1_params = (e_j, lambdas_j, ''SS'', ep_retire params, ep_etr_params params,
                        ep_h_wealth params, ep_p_wealth params, ep_m_wealth params,
                        ep_tau_payroll params, theta, tau_bq_j, ep_J params, ep_S params);
         tax1 = total_taxes c r w b_s n_guess BQ factor T_H None False tax1_params;
         cons = get_cons c r b_s w e_j n_guess BQ lambdas_j b_splus1 params tax1;
         mask6 = map (\<lambda>x. x < Fin 0) cons
     in
     bindR (mask_assign error1 mask6 (Fin (10 ^ 14))) (\<lambda>error1.
     Inr (error1 @ error2))))))))))))"






text \<open>A household block and parameters for \<open>S = 2\<close>, \<open>J = 1\<close>, to run the model on.\<close>

definition demo_block :: household_block where
  "demo_block =
     \<lparr>get_BQ = (\<lambda>r b1 om lam rh g m. Fin 0),
      replacement_rate_vals = (\<lambda>n w factor tp. Fin 0),
      euler_savings_func = (\<lambda>w r e_j n b_s b1 b2 BQ factor T_H chi tp p theta tb rh lam. map (\<lambda>x. x - Fin 1) b1),
      euler_labor_leisure_func = (\<lambda>w r e_j n b_s b1 BQ factor T_H chi tp p theta tb lam. map (\<lambda>x. x + Fin 1) n),
      total_taxes = (\<lambda>r w b_s n BQ factor T_H jj sh tp. map (\<lambda>x. Fin 0) n),
      get_cons = (\<lambda>r b_s w e_j n BQ lam b1 p tax1. b1)\<rparr>"


definition demo_tax_params :: tax_params where
  "demo_tax_params = (False, [], [], [])"

lemma Fin_less [simp]: "Fin a < Fin b \<longleftrightarrow> a < b"
  by (simp add: less_npfloat_def)

lemma Fin_less_eq [simp]: "Fin a \<le> Fin b \<longleftrightarrow> a \<le> b"
  by (simp add: less_eq_npfloat_def)

lemma NaN_less [simp]: "\<not> NaN < x" "\<not> x < NaN" "\<not> NaN \<le> x" "\<not> x \<le> NaN"
  by (simp_all add: less_npfloat_def less_eq_npfloat_def split: npfloat.splits)

lemma isnan_simps [simp]: "isnan NaN" "\<not> isnan (Fin a)"
  by (simp_all add: isnan_def)

lemma Fin_arith [simp]:
  "Fin a + Fin b = Fin (a + b)" "Fin a - Fin b = Fin (a - b)" "Fin a * Fin b = Fin (a * b)"
  "\<bar>Fin a\<bar> = Fin \<bar>a\<bar>"
  by (simp_all add: plus_npfloat_def minus_npfloat_def times_npfloat_def abs_npfloat_def)

lemma NaN_arith [simp]:
  "NaN + x = NaN" "x + NaN = NaN" "NaN - x = NaN" "x - NaN = NaN" "NaN * x = NaN" "x * NaN = NaN"
  "\<bar>NaN\<bar> = NaN"
  by (simp_all add: plus_npfloat_def minus_npfloat_def times_npfloat_def abs_npfloat_def
      split: npfloat.splits)


lemma bindR_Inr [simp]: "bindR (Inr x) f = f x"
  by (simp add: bindR_def)

lemma bindR_Inl [simp]: "bindR (Inl x) f = Inl x"
  by (simp add: bindR_def)

lemma bindR_eq_Inr: "bindR m f = Inr y \<longleftrightarrow> (\<exists>x. m = Inr x \<and> f x = Inr y)"
  by (cases m) simp_all












subsection \<open>The outer fixed point: \<^verbatim>\<open>SS_solver\<close>\<close>

text \<open>The tuple \<^verbatim>\<open>params\<close> of \<^verbatim>\<open>SS_solver\<close> (lines 323 to 325).\<close>

record ss_parameters =
  sp_J :: nat
  sp_S :: nat
  sp_T :: nat
  sp_BW :: nat
  sp_beta :: npfloat
  sp_sigma :: npfloat
  sp_alpha :: npfloat
  sp_Z :: npfloat
  sp_delta :: npfloat
  sp_ltilde :: npfloat
  sp_nu :: npfloat
  sp_g_y :: npfloat
  sp_g_n_ss :: npfloat
  sp_tau_payroll :: npfloat
  sp_retire :: nat
  sp_mean_income_data :: npfloat
  sp_h_wealth :: npfloat
  sp_p_wealth :: npfloat
  sp_m_wealth :: npfloat
  sp_b_ellipse :: npfloat
  sp_upsilon :: npfloat

type_synonym matrix = "npfloat list list"

type_synonym T_H_params =
  "matrix \<times> matrix \<times> matrix \<times> string \<times> matrix \<times> npfloat list \<times> npfloat list \<times> npfloat
   \<times> npfloat \<times> npfloat \<times> npfloat \<times> nat \<times> nat \<times> nat \<times> nat"

text \<open>
  What \<^verbatim>\<open>opt.fsolve(..., full_output=True)\<close> returns: the solution, the residuals
  \<^verbatim>\<open>infodict['fvec']\<close> at the solution, the flag \<^verbatim>\<open>ier\<close> (1 when a root was found) and
  the message.
\<close>

record fsolve_out =
  fs_solutions :: "npfloat list"
  fs_fvec :: "npfloat list"
  fs_ier :: int
  fs_message :: string

text \<open>
  The root finder, and the functions of \<^verbatim>\<open>household\<close>, \<^verbatim>\<open>firm\<close>, \<^verbatim>\<open>tax\<close> and \<^verbatim>\<open>utils\<close>
  that the outer loop calls on the \<open>[S, J]\<close> arrays. The root finder takes the residual
  function, the seed and \<^verbatim>\<open>xtol\<close>; an exception of the residual function comes out of it.
\<close>

record macro_block =
  fsolve :: "(npfloat list \<Rightarrow> py_error + npfloat list) \<Rightarrow> npfloat list \<Rightarrow> npfloat \<Rightarrow> py_error + fsolve_out"
  get_K :: "matrix \<Rightarrow> matrix \<times> matrix \<times> npfloat \<times> string \<Rightarrow> npfloat"
  get_L :: "matrix \<Rightarrow> matrix \<times> matrix \<times> matrix \<times> string \<Rightarrow> npfloat"
  get_Y :: "npfloat \<Rightarrow> npfloat \<Rightarrow> npfloat \<times> npfloat \<Rightarrow> npfloat"
  get_r :: "npfloat \<Rightarrow> npfloat \<Rightarrow> npfloat \<times> npfloat \<Rightarrow> npfloat"
  get_w :: "npfloat \<Rightarrow> npfloat \<Rightarrow> npfloat \<Rightarrow> npfloat"
  get_BQ_SJ :: "npfloat \<Rightarrow> matrix \<Rightarrow> matrix \<Rightarrow> matrix \<Rightarrow> matrix \<Rightarrow> npfloat \<Rightarrow> string \<Rightarrow> npfloat list"
  replacement_rate_vals_SJ :: "matrix \<Rightarrow> npfloat \<Rightarrow> npfloat \<Rightarrow> matrix \<times> nat \<times> matrix \<times> npfloat list \<Rightarrow> npfloat list"
  get_lump_sum :: "npfloat \<Rightarrow> npfloat \<Rightarrow> matrix \<Rightarrow> matrix \<Rightarrow> npfloat list \<Rightarrow> npfloat \<Rightarrow> T_H_params \<Rightarrow> npfloat"
  convex_combo :: "npfloat \<Rightarrow> npfloat \<Rightarrow> npfloat \<Rightarrow> npfloat"
  pct_diff_func :: "npfloat \<Rightarrow> npfloat \<Rightarrow> npfloat"

text \<open>The arguments of \<^verbatim>\<open>SS_solver\<close> that stay fixed while it runs.\<close>

record ss_env =
  env_chi_n :: "npfloat list"
  env_chi_b :: "npfloat list"
  env_tax_params :: tax_params
  env_params :: ss_parameters
  env_tau_bq :: "npfloat list"
  env_rho :: "npfloat list"
  env_lambdas :: "npfloat list"
  env_omega :: "npfloat list"
  env_e :: matrix

text \<open>
  The tuple \<^verbatim>\<open>args_\<close> of lines 356 and 357, packed into the tuple that
  \<^verbatim>\<open>Euler_equation_solver\<close> unpacks.
\<close>

definition euler_args :: "ss_env \<Rightarrow> nat \<Rightarrow> euler_params" where
  "euler_args env jj =
     (let p = env_params env; (am, etr, mtrx, mtry) = env_tax_params env in
      \<lparr>ep_J = sp_J p, ep_S = sp_S p, ep_beta = sp_beta p, ep_sigma = sp_sigma p,
       ep_ltilde = sp_ltilde p, ep_g_y = sp_g_y p, ep_g_n_ss = sp_g_n_ss p,
       ep_tau_payroll = sp_tau_payroll p, ep_retire = sp_retire p,
       ep_mean_income_data = sp_mean_income_data p, ep_h_wealth = sp_h_wealth p,
       ep_p_wealth = sp_p_wealth p, ep_m_wealth = sp_m_wealth p, ep_b_ellipse = sp_b_ellipse p,
       ep_upsilon = sp_upsilon p, ep_j = jj, ep_chi_b = env_chi_b env, ep_chi_n = env_chi_n env,
       ep_tau_bq = env_tau_bq env, ep_rho = env_rho env, ep_lambdas = env_lambdas env,
       ep_omega = env_omega env, ep_e = env_e env, ep_analytical_mtrs = am,
       ep_etr_params = etr, ep_mtrx_params = mtrx, ep_mtry_params = mtry\<rparr>)"

definition euler_residual ::
  "household_block \<Rightarrow> ss_env \<Rightarrow> npfloat \<Rightarrow> npfloat \<Rightarrow> npfloat \<Rightarrow> npfloat \<Rightarrow> nat
   \<Rightarrow> npfloat list \<Rightarrow> py_error + npfloat list" where
  "euler_residual hb env r w T_H factor jj x =
     Euler_equation_solver hb (env_tax_params env) x r w T_H factor (euler_args env jj)"

text \<open>
  \<^verbatim>\<open>m[:, j] = v\<close>: the column must exist, and \<open>v\<close> must have one entry per row, or one
  entry in all, which numpy repeats.
\<close>

definition set_column :: "matrix \<Rightarrow> nat \<Rightarrow> npfloat list \<Rightarrow> py_error + matrix" where
  "set_column m i v =
     (if \<not> list_all (\<lambda>row. i < length row) m then Inl IndexError
      else if length v = length m then Inr (map (\<lambda>(row, x). row[i := x]) (zip m v))
      else if length v = 1 then Inr (map (\<lambda>row. row[i := hd v]) m)
      else Inl ValueError)"

text \<open>\<^verbatim>\<open>a[i] = v\<close> on a one-dimensional array.\<close>

definition set_item :: "'a list \<Rightarrow> nat \<Rightarrow> 'a \<Rightarrow> py_error + 'a list" where
  "set_item xs i v = (if i < length xs then Inr (xs[i := v]) else Inl IndexError)"

text \<open>
  What the per-type loop carries: the two decision arrays, which it overwrites column by
  column, the calls of the root finder so far (seed and answer), and what it has printed.
\<close>

record solve_state =
  ss_bssmat :: matrix
  ss_nssmat :: matrix
  ss_calls :: "(npfloat list \<times> fsolve_out) list"
  ss_stdout :: "(string \<times> npfloat) list"

text \<open>
  Lines 349 to 364: for each ability type, the root finder is started from \<open>0.9\<close> times the
  columns of type \<open>j - 1\<close> (of type \<open>0\<close> when \<open>j = 0\<close>) and its solution is written into
  column \<open>j\<close>. The same loop stands at lines 487 to 501 and 601 to 615.
\<close>

fun solve_types ::
  "macro_block \<Rightarrow> (nat \<Rightarrow> npfloat list \<Rightarrow> py_error + npfloat list) \<Rightarrow> nat \<Rightarrow> nat list
   \<Rightarrow> solve_state \<Rightarrow> py_error + solve_state" where
  "solve_types mb F s [] st = Inr st"
| "solve_types mb F s (jj # js) st =
     bindR (column (ss_bssmat st) (if jj = 0 then jj else jj - 1)) (\<lambda>bcol.
     bindR (column (ss_nssmat st) (if jj = 0 then jj else jj - 1)) (\<lambda>ncol.
     let guesses = bcol @ ncol;
         x0 = map (\<lambda>x. x * Fin (9 / 10)) guesses
     in
     bindR (fsolve mb (F jj) x0 (Fin (1 / 10 ^ 13))) (\<lambda>out.
     bindR (np_max (map abs (fs_fvec out))) (\<lambda>shown.
     bindR (set_column (ss_bssmat st) jj (take s (fs_solutions out))) (\<lambda>bssmat.
     bindR (set_column (ss_nssmat st) jj (drop s (fs_solutions out))) (\<lambda>nssmat.
     solve_types mb F s js
       \<lparr>ss_bssmat = bssmat, ss_nssmat = nssmat, ss_calls = ss_calls st @ [(x0, out)],
        ss_stdout = ss_stdout st @ [(''Max Euler errors: '', shown)]\<rparr>))))))"

text \<open>\<^verbatim>\<open>a.reshape(n, 1)\<close> and \<^verbatim>\<open>a.reshape(1, n)\<close> of a one-dimensional array.\<close>

definition reshape_col :: "npfloat list \<Rightarrow> nat \<Rightarrow> py_error + matrix" where
  "reshape_col a n = (if length a = n then Inr (map (\<lambda>x. [x]) a) else Inl ValueError)"

definition reshape_row :: "npfloat list \<Rightarrow> nat \<Rightarrow> py_error + matrix" where
  "reshape_row a n = (if length a = n then Inr [a] else Inl ValueError)"

definition has_shape :: "nat \<Rightarrow> nat \<Rightarrow> matrix \<Rightarrow> bool" where
  "has_shape s jn m \<longleftrightarrow> length m = s \<and> list_all (\<lambda>row. length row = jn) m"

text \<open>
  Lines 376 to 378, the sum of
  \<^verbatim>\<open>(new_r * b_s + new_w * e * nssmat) * omega.reshape(S, 1) * lambdas.reshape(1, J)\<close>.
  The embedding asks for arrays of shape \<open>[S, J]\<close> and raises otherwise; numpy would also
  repeat an axis of length one.
\<close>

definition average_income ::
  "nat \<Rightarrow> nat \<Rightarrow> npfloat \<Rightarrow> npfloat \<Rightarrow> matrix \<Rightarrow> matrix \<Rightarrow> matrix \<Rightarrow> npfloat list \<Rightarrow> npfloat list
   \<Rightarrow> py_error + npfloat" where
  "average_income s jn new_r new_w b_s e nssmat omega lambdas =
     (if has_shape s jn b_s \<and> has_shape s jn e \<and> has_shape s jn nssmat
         \<and> length omega = s \<and> length lambdas = jn
      then Inr (foldl (+) (Fin 0)
             (concat (map (\<lambda>i. map (\<lambda>k.
                 (new_r * (b_s ! i ! k) + new_w * (e ! i ! k) * (nssmat ! i ! k))
                   * (omega ! i) * (lambdas ! k)) [0..<jn]) [0..<s])))
      else Inl ValueError)"

record aggregates =
  agg_r :: npfloat
  agg_w :: npfloat
  agg_factor :: npfloat
  agg_T_H :: npfloat
  agg_theta :: "npfloat list"

text \<open>
  Lines 366 to 389: the prices, the scaling factor and the transfer that the decisions
  imply. \<^verbatim>\<open>SS_fsolve\<close> (lines 506 to 529) and \<^verbatim>\<open>SS_fsolve_reform\<close> (lines 620 to 642)
  repeat these lines word for word. The replacement rate is computed from the new scaling
  factor, the transfer from the one passed in.
\<close>

definition implied_aggregates ::
  "macro_block \<Rightarrow> ss_env \<Rightarrow> matrix \<Rightarrow> matrix \<Rightarrow> npfloat \<Rightarrow> py_error + aggregates" where
  "implied_aggregates mb env bssmat nssmat factor =
     (let p = env_params env; (am, etr_params, mtrx, mtry) = env_tax_params env in
      bindR (reshape_col (env_omega env) (sp_S p)) (\<lambda>omega_S1.
      bindR (reshape_row (env_lambdas env) (sp_J p)) (\<lambda>lambdas_1J.
      let K = get_K mb bssmat (omega_S1, lambdas_1J, sp_g_n_ss p, ''SS'');
          L = get_L mb nssmat (env_e env, omega_S1, lambdas_1J, ''SS'');
          Y = get_Y mb K L (sp_alpha p, sp_Z p);
          new_r = get_r mb Y K (sp_alpha p, sp_delta p);
          new_w = get_w mb Y L (sp_alpha p);
          b_s = replicate (sp_J p) (Fin 0) # butlast bssmat
      in
      bindR (average_income (sp_S p) (sp_J p) new_r new_w b_s (env_e env) nssmat
               (env_omega env) (env_lambdas env)) (\<lambda>average_income_model.
      let new_factor = sp_mean_income_data p / average_income_model in
      bindR (reshape_col (env_rho env) (sp_S p)) (\<lambda>rho_S1.
      let new_BQ = get_BQ_SJ mb new_r bssmat omega_S1 lambdas_1J rho_S1 (sp_g_n_ss p) ''SS'';
          theta = replacement_rate_vals_SJ mb nssmat new_w new_factor
                    (env_e env, sp_J p, omega_S1, env_lambdas env);
          T_H_params = (env_e env, lambdas_1J, omega_S1, ''SS'', etr_params, theta, env_tau_bq env,
                        sp_tau_payroll p, sp_h_wealth p, sp_p_wealth p, sp_m_wealth p,
                        sp_retire p, sp_T p, sp_S p, sp_J p);
          new_T_H = get_lump_sum mb new_r new_w b_s nssmat new_BQ factor T_H_params
      in Inr \<lparr>agg_r = new_r, agg_w = new_w, agg_factor = new_factor, agg_T_H = new_T_H,
              agg_theta = theta\<rparr>)))))"

text \<open>
  The variables of the \<^verbatim>\<open>while\<close> loop of \<^verbatim>\<open>SS_solver\<close>: the macro state, the damping
  weight \<^verbatim>\<open>nu\<close>, the distance and its history, the iteration count, and the decisions.
\<close>

record loop_state =
  ls_w :: npfloat
  ls_r :: npfloat
  ls_T_H :: npfloat
  ls_factor :: npfloat
  ls_nu :: npfloat
  ls_dist :: npfloat
  ls_iteration :: nat
  ls_dist_vec :: "npfloat list"
  ls_solve :: solve_state

text \<open>
  Lines 395 to 406: the distance, taken after the four values have been damped (lines 391
  to 394), so \<open>r\<close>, \<open>w\<close>, \<open>T_H\<close> and \<open>factor\<close> are the updated ones.
\<close>

definition distance ::
  "macro_block \<Rightarrow> npfloat \<Rightarrow> npfloat \<Rightarrow> npfloat \<Rightarrow> npfloat \<Rightarrow> npfloat \<Rightarrow> npfloat \<Rightarrow> npfloat \<Rightarrow> npfloat
   \<Rightarrow> py_error + npfloat" where
  "distance mb new_r r new_w w new_T_H T_H new_factor factor =
     (if T_H \<noteq> Fin 0
      then np_max [pct_diff_func mb new_r r, pct_diff_func mb new_w w,
                   pct_diff_func mb new_T_H T_H, pct_diff_func mb new_factor factor]
      else np_max [pct_diff_func mb new_r r, pct_diff_func mb new_w w,
                   \<bar>new_T_H - T_H\<bar>, pct_diff_func mb new_factor factor])"

text \<open>
  Lines 407 to 413: the distance is recorded, and past iteration 10 (counted from 0) the
  weight is halved when the distance has grown since the iteration before.
\<close>

definition damping ::
  "npfloat list \<Rightarrow> nat \<Rightarrow> npfloat \<Rightarrow> npfloat
   \<Rightarrow> py_error + npfloat list \<times> npfloat \<times> (string \<times> npfloat) list" where
  "damping dist_vec iteration dst nu =
     bindR (set_item dist_vec iteration dst) (\<lambda>dist_vec.
     if iteration > 10
     then bindR (item dist_vec iteration) (\<lambda>d1.
          bindR (item dist_vec (iteration - 1)) (\<lambda>d0.
          if Fin 0 < d1 - d0
          then Inr (dist_vec, nu / Fin 2, [(''New value of nu:'', nu / Fin 2)])
          else Inr (dist_vec, nu, [])))
     else Inr (dist_vec, nu, []))"

text \<open>Lines 347 to 415: one pass of the body of the \<^verbatim>\<open>while\<close> loop.\<close>

definition SS_iteration ::
  "macro_block \<Rightarrow> household_block \<Rightarrow> ss_env \<Rightarrow> loop_state \<Rightarrow> py_error + loop_state" where
  "SS_iteration mb hb env st =
     (let p = env_params env;
          r = ls_r st; w = ls_w st; T_H = ls_T_H st; factor = ls_factor st; nu = ls_nu st
      in
      bindR (solve_types mb (euler_residual hb env r w T_H factor) (sp_S p) [0..<sp_J p] (ls_solve st))
        (\<lambda>sol.
      bindR (implied_aggregates mb env (ss_bssmat sol) (ss_nssmat sol) factor) (\<lambda>agg.
      let r = convex_combo mb (agg_r agg) r nu;
          w = convex_combo mb (agg_w agg) w nu;
          factor = convex_combo mb (agg_factor agg) factor nu;
          T_H = convex_combo mb (agg_T_H agg) T_H nu
      in
      bindR (distance mb (agg_r agg) r (agg_w agg) w (agg_T_H agg) T_H (agg_factor agg) factor)
        (\<lambda>dst.
      bindR (damping (ls_dist_vec st) (ls_iteration st) dst nu) (\<lambda>(dist_vec, nu', shown).
      Inr \<lparr>ls_w = w, ls_r = r, ls_T_H = T_H, ls_factor = factor, ls_nu = nu', ls_dist = dst,
           ls_iteration = ls_iteration st + 1, ls_dist_vec = dist_vec,
           ls_solve = sol\<lparr>ss_stdout := ss_stdout sol
              @ shown
              @ [(''Iteration, Distance: '', dst)]\<rparr>\<rparr>)))))"

lemma SS_iteration_counts:
  "SS_iteration mb hb env st = Inr st' \<Longrightarrow> ls_iteration st' = Suc (ls_iteration st)"
  unfolding SS_iteration_def Let_def
  by (auto simp: bindR_eq_Inr)

text \<open>Line 346: the loop runs while the distance is above the tolerance and iterations remain.\<close>

function SS_while ::
  "macro_block \<Rightarrow> household_block \<Rightarrow> ss_env \<Rightarrow> npfloat \<Rightarrow> nat \<Rightarrow> loop_state \<Rightarrow> py_error + loop_state" where
  "SS_while mb hb env mindist_SS maxiter st =
     (if mindist_SS < ls_dist st \<and> ls_iteration st < maxiter
      then (case SS_iteration mb hb env st of
              Inl err \<Rightarrow> Inl err
            | Inr st' \<Rightarrow> SS_while mb hb env mindist_SS maxiter st')
      else Inr st)"
  by pat_completeness auto
termination
  by (relation "measure (\<lambda>(mb, hb, env, mindist_SS, maxiter, st). maxiter - ls_iteration st)")
     (auto dest: SS_iteration_counts)

declare SS_while.simps [simp del]

text \<open>
  What the last per-type loop (lines 417 to 433) carries: the array \<^verbatim>\<open>eul_errors\<close>, the
  two arrays of the solution, the calls of the root finder and the printed lines.
\<close>

record final_state =
  fin_eul_errors :: "npfloat list"
  fin_b_mat :: matrix
  fin_n_mat :: matrix
  fin_calls :: "(npfloat list \<times> fsolve_out) list"
  fin_stdout :: "(string \<times> npfloat) list"

text \<open>
  Lines 423 to 432. Each type is seeded from its own columns here. Line 429 stores the
  maximum of the residuals as they are; line 430 prints the maximum of their absolute
  values.
\<close>

fun final_types ::
  "macro_block \<Rightarrow> (nat \<Rightarrow> npfloat list \<Rightarrow> py_error + npfloat list) \<Rightarrow> nat \<Rightarrow> matrix \<Rightarrow> matrix
   \<Rightarrow> nat list \<Rightarrow> final_state \<Rightarrow> py_error + final_state" where
  "final_types mb F s bssmat nssmat [] st = Inr st"
| "final_types mb F s bssmat nssmat (jj # js) st =
     bindR (column bssmat jj) (\<lambda>bcol.
     bindR (column nssmat jj) (\<lambda>ncol.
     let guesses = bcol @ ncol;
         x0 = map (\<lambda>x. x * Fin (9 / 10)) guesses
     in
     bindR (fsolve mb (F jj) x0 (Fin (1 / 10 ^ 13))) (\<lambda>out.
     bindR (np_max (fs_fvec out)) (\<lambda>m.
     bindR (set_item (fin_eul_errors st) jj m) (\<lambda>eul_errors.
     bindR (np_max (map abs (fs_fvec out))) (\<lambda>shown.
     bindR (set_column (fin_b_mat st) jj (take s (fs_solutions out))) (\<lambda>b_mat.
     bindR (set_column (fin_n_mat st) jj (drop s (fs_solutions out))) (\<lambda>n_mat.
     final_types mb F s bssmat nssmat js
       \<lparr>fin_eul_errors = eul_errors, fin_b_mat = b_mat, fin_n_mat = n_mat,
        fin_calls = fin_calls st @ [(x0, out)],
        fin_stdout = fin_stdout st @ [(''Max Euler errors: '', shown)]\<rparr>))))))))"

text \<open>
  Everything \<^verbatim>\<open>SS_solver\<close> has computed when it returns: the state the loop ended in, the
  last per-type pass, and the returned array \<^verbatim>\<open>solutions\<close>.
\<close>

record ss_run =
  run_loop :: loop_state
  run_final :: final_state
  run_solutions :: "npfloat list"

definition SS_solver_run ::
  "macro_block \<Rightarrow> household_block \<Rightarrow> matrix \<Rightarrow> matrix \<Rightarrow> npfloat \<Rightarrow> npfloat \<Rightarrow> npfloat \<Rightarrow> npfloat
   \<Rightarrow> npfloat list \<Rightarrow> npfloat list \<Rightarrow> tax_params \<Rightarrow> ss_parameters \<Rightarrow> nat \<times> npfloat
   \<Rightarrow> npfloat list \<Rightarrow> npfloat list \<Rightarrow> npfloat list \<Rightarrow> npfloat list \<Rightarrow> matrix \<Rightarrow> bool
   \<Rightarrow> py_error + ss_run" where
  "SS_solver_run mb hb b_guess_init n_guess_init wguess rguess T_Hguess factorguess chi_n chi_b
       tax_params params iterative_params tau_bq rho lambdas omega e fsolve_flag =
     (let env = \<lparr>env_chi_n = chi_n, env_chi_b = chi_b, env_tax_params = tax_params,
                 env_params = params, env_tau_bq = tau_bq, env_rho = rho, env_lambdas = lambdas,
                 env_omega = omega, env_e = e\<rparr>;
          (maxiter, mindist_SS) = iterative_params;
          st0 = \<lparr>ls_w = wguess, ls_r = rguess, ls_T_H = T_Hguess, ls_factor = factorguess,
                 ls_nu = sp_nu params, ls_dist = Fin 10, ls_iteration = 0,
                 ls_dist_vec = replicate maxiter (Fin 0),
                 ls_solve = \<lparr>ss_bssmat = b_guess_init, ss_nssmat = n_guess_init, ss_calls = [],
                             ss_stdout = []\<rparr>\<rparr>;
          maxiter = (if fsolve_flag then 1 else maxiter)
      in
      bindR (SS_while mb hb env mindist_SS maxiter st0) (\<lambda>st.
      bindR (final_types mb
               (euler_residual hb env (ls_r st) (ls_w st) (ls_T_H st) (ls_factor st))
               (sp_S params) (ss_bssmat (ls_solve st)) (ss_nssmat (ls_solve st)) [0..<sp_J params]
               \<lparr>fin_eul_errors = replicate (sp_J params) (Fin 1),
                fin_b_mat = replicate (sp_S params) (replicate (sp_J params) (Fin 0)),
                fin_n_mat = replicate (sp_S params) (replicate (sp_J params) (Fin 0)),
                fin_calls = [], fin_stdout = []\<rparr>) (\<lambda>fin.
      bindR (np_max (fin_eul_errors fin)) (\<lambda>shown.
      Inr \<lparr>run_loop = st,
           run_final = fin\<lparr>fin_stdout := fin_stdout fin @ [(''SS fsolve euler error:'', shown)]\<rparr>,
           run_solutions = concat (fin_b_mat fin) @ concat (fin_n_mat fin)
                           @ [ls_w st, ls_r st, ls_factor st, ls_T_H st]\<rparr>))))"

text \<open>Lines 259 to 437: \<^verbatim>\<open>SS_solver\<close> returns the array \<^verbatim>\<open>solutions\<close>.\<close>

definition SS_solver ::
  "macro_block \<Rightarrow> household_block \<Rightarrow> matrix \<Rightarrow> matrix \<Rightarrow> npfloat \<Rightarrow> npfloat \<Rightarrow> npfloat \<Rightarrow> npfloat
   \<Rightarrow> npfloat list \<Rightarrow> npfloat list \<Rightarrow> tax_params \<Rightarrow> ss_parameters \<Rightarrow> nat \<times> npfloat
   \<Rightarrow> npfloat list \<Rightarrow> npfloat list \<Rightarrow> npfloat list \<Rightarrow> npfloat list \<Rightarrow> matrix \<Rightarrow> bool
   \<Rightarrow> py_error + npfloat list" where
  "SS_solver mb hb b_guess_init n_guess_init wguess rguess T_Hguess factorguess chi_n chi_b
       tax_params params iterative_params tau_bq rho lambdas omega e fsolve_flag =
     bindR (SS_solver_run mb hb b_guess_init n_guess_init wguess rguess T_Hguess factorguess
              chi_n chi_b tax_params params iterative_params tau_bq rho lambdas omega e fsolve_flag)
       (\<lambda>run. Inr (run_solutions run))"

text \<open>
  An economy with one age and one ability type to run the loop on. Its root finder
  answers the first entry of the seed times \<open>4 / 0.9\<close> and \<open>1\<close> elsewhere, with residuals \<open>-3\<close> and
  \<open>1\<close> and the flag \<open>ier = 5\<close> of a search that did not converge; the implied interest rate
  is the capital stock; \<^verbatim>\<open>convex_combo\<close> and \<^verbatim>\<open>pct_diff_func\<close> are those of \<^verbatim>\<open>utils\<close>.
\<close>

definition demo_macro :: macro_block where
  "demo_macro =
     \<lparr>fsolve = (\<lambda>F x tol. Inr
         \<lparr>fs_solutions = (case x of [] \<Rightarrow> [] | a # rest \<Rightarrow> a * Fin (40 / 9) # map (\<lambda>v. Fin 1) rest),
          fs_fvec = [Fin (- 3), Fin 1], fs_ier = 5, fs_message = ''no progress''\<rparr>),
      get_K = (\<lambda>b ps. hd (hd b)),
      get_L = (\<lambda>n ps. Fin 1),
      get_Y = (\<lambda>K L ps. K),
      get_r = (\<lambda>Y K ps. Y),
      get_w = (\<lambda>Y L alpha. Fin 1),
      get_BQ_SJ = (\<lambda>r b om lam rh g m. [Fin 0]),
      replacement_rate_vals_SJ = (\<lambda>n w factor ps. [factor]),
      get_lump_sum = (\<lambda>r w b_s n BQ factor (e, lam, om, m, etr, theta, rest). hd theta),
      convex_combo = (\<lambda>new old nu. nu * new + (Fin 1 - nu) * old),
      pct_diff_func = (\<lambda>simul data. \<bar>(simul - data) / data\<bar>)\<rparr>"

definition demo_ss_params :: ss_parameters where
  "demo_ss_params =
     \<lparr>sp_J = 1, sp_S = 1, sp_T = 1, sp_BW = 1, sp_beta = Fin 1, sp_sigma = Fin 1, sp_alpha = Fin 1,
      sp_Z = Fin 1, sp_delta = Fin 0, sp_ltilde = Fin 1, sp_nu = Fin (1 / 2), sp_g_y = Fin 0,
      sp_g_n_ss = Fin 0, sp_tau_payroll = Fin 0, sp_retire = 1, sp_mean_income_data = Fin 1,
      sp_h_wealth = Fin 0, sp_p_wealth = Fin 0, sp_m_wealth = Fin 0, sp_b_ellipse = Fin 1,
      sp_upsilon = Fin 1\<rparr>"

definition demo_env :: ss_env where
  "demo_env =
     \<lparr>env_chi_n = [Fin 1], env_chi_b = [Fin 1], env_tax_params = demo_tax_params,
      env_params = demo_ss_params, env_tau_bq = [Fin 0], env_rho = [Fin 0], env_lambdas = [Fin 1],
      env_omega = [Fin 1], env_e = [[Fin 1]]\<rparr>"

definition demo_state :: "real \<Rightarrow> real \<Rightarrow> real \<Rightarrow> real \<Rightarrow> nat \<Rightarrow> npfloat list
    \<Rightarrow> (npfloat list \<times> fsolve_out) list \<Rightarrow> (string \<times> npfloat) list \<Rightarrow> loop_state" where
  "demo_state b r nu d i dv calls out =
     \<lparr>ls_w = Fin 1, ls_r = Fin r, ls_T_H = Fin 1, ls_factor = Fin 1, ls_nu = Fin nu, ls_dist = Fin d,
      ls_iteration = i, ls_dist_vec = dv,
      ls_solve = \<lparr>ss_bssmat = [[Fin b]], ss_nssmat = [[Fin 1]], ss_calls = calls, ss_stdout = out\<rparr>\<rparr>"

text \<open>
  The state the loop starts in for this economy with eleven iterations allowed, and the
  state after its first iteration.
\<close>

definition demo_start :: loop_state where
  "demo_start =
     \<lparr>ls_w = Fin 1, ls_r = Fin 1, ls_T_H = Fin 1, ls_factor = Fin 1, ls_nu = Fin (1 / 2),
      ls_dist = Fin 10, ls_iteration = 0, ls_dist_vec = replicate 11 (Fin 0),
      ls_solve = \<lparr>ss_bssmat = [[Fin 1]], ss_nssmat = [[Fin 1]], ss_calls = [], ss_stdout = []\<rparr>\<rparr>"

definition demo_second :: loop_state where
  "demo_second =
     \<lparr>ls_w = Fin 1, ls_r = Fin (5 / 2), ls_T_H = Fin 1, ls_factor = Fin 1, ls_nu = Fin (1 / 2),
      ls_dist = Fin (3 / 5), ls_iteration = 1,
      ls_dist_vec = Fin (3 / 5) # replicate 10 (Fin 0),
      ls_solve = \<lparr>ss_bssmat = [[Fin 4]], ss_nssmat = [[Fin 1]],
        ss_calls = [([Fin (9 / 10), Fin (9 / 10)],
           \<lparr>fs_solutions = [Fin 4, Fin 1], fs_fvec = [Fin (- 3), Fin 1], fs_ier = 5,
            fs_message = ''no progress''\<rparr>)],
        ss_stdout = [(''Max Euler errors: '', Fin 3), (''Iteration, Distance: '', Fin (3 / 5))]\<rparr>\<rparr>"

lemma Fin_divide [simp]: "Fin a / Fin b = (if b = 0 then NaN else Fin (a / b))"
  by (simp add: divide_npfloat_def)

lemma np_max_simps [simp]:
  "np_max [] = Inl ValueError" "np_max (x # xs) = Inr (np_max_from x xs)"
  by (simp_all add: np_max_def)

lemma demo_solve:
  "solve_types demo_macro F (Suc 0) [0]
     \<lparr>ss_bssmat = [[Fin b]], ss_nssmat = [[Fin 1]], ss_calls = calls, ss_stdout = out\<rparr>
   = Inr \<lparr>ss_bssmat = [[Fin (4 * b)]], ss_nssmat = [[Fin 1]],
          ss_calls = calls @ [([Fin (b * 9 / 10), Fin (9 / 10)],
             \<lparr>fs_solutions = [Fin (4 * b), Fin 1],
              fs_fvec = [Fin (- 3), Fin 1], fs_ier = 5, fs_message = ''no progress''\<rparr>)],
          ss_stdout = out @ [(''Max Euler errors: '', Fin 3)]\<rparr>"
  by (simp add: demo_macro_def column_def set_column_def)

lemma demo_aggregates:
  "implied_aggregates demo_macro demo_env [[Fin b]] [[Fin 1]] (Fin f)
   = Inr \<lparr>agg_r = Fin b, agg_w = Fin 1, agg_factor = Fin 1, agg_T_H = Fin 1, agg_theta = [Fin 1]\<rparr>"
  by (simp add: implied_aggregates_def demo_macro_def demo_env_def demo_ss_params_def Let_def
      demo_tax_params_def reshape_col_def reshape_row_def average_income_def has_shape_def upt_rec)

lemma replicate_11: "replicate 11 x = [x, x, x, x, x, x, x, x, x, x, x]"
  by (simp add: numeral_eq_Suc)

lemma demo_params_simps [simp]:
  "env_params demo_env = demo_ss_params" "sp_S demo_ss_params = 1" "sp_J demo_ss_params = 1"
  "sp_nu demo_ss_params = Fin (1 / 2)"
  by (simp_all add: demo_env_def demo_ss_params_def)

lemma demo_utils [simp]:
  "convex_combo demo_macro new old nu = nu * new + (Fin 1 - nu) * old"
  "pct_diff_func demo_macro simul data = \<bar>(simul - data) / data\<bar>"
  by (simp_all add: demo_macro_def)

lemma set_item_simp [simp]: "i < length xs \<Longrightarrow> set_item xs i v = Inr (xs[i := v])"
  by (simp add: set_item_def)

lemma item_simp [simp]: "i < length xs \<Longrightarrow> item xs i = Inr (xs ! i)"
  by (simp add: item_def)


lemma demo_final:
  "final_types demo_macro F (Suc 0) [[Fin b]] [[Fin 1]] [0]
     \<lparr>fin_eul_errors = [Fin 1], fin_b_mat = [[Fin 0]], fin_n_mat = [[Fin 0]], fin_calls = [],
      fin_stdout = []\<rparr>
   = Inr \<lparr>fin_eul_errors = [Fin 1], fin_b_mat = [[Fin (4 * b)]], fin_n_mat = [[Fin 1]],
          fin_calls = [([Fin (b * 9 / 10), Fin (9 / 10)],
             \<lparr>fs_solutions = [Fin (4 * b), Fin 1],
              fs_fvec = [Fin (- 3), Fin 1], fs_ier = 5, fs_message = ''no progress''\<rparr>)],
          fin_stdout = [(''Max Euler errors: '', Fin 3)]\<rparr>"
  by (simp add: demo_macro_def column_def set_column_def)

text \<open>The run of \<^verbatim>\<open>SS_solver\<close> on this economy, for a given iteration limit and tolerance.\<close>

definition demo_run :: "nat \<Rightarrow> real \<Rightarrow> py_error + ss_run" where
  "demo_run maxiter tol =
     SS_solver_run demo_macro demo_block [[Fin 1]] [[Fin 1]] (Fin 1) (Fin 1) (Fin 1) (Fin 1)
       [Fin 1] [Fin 1] demo_tax_params demo_ss_params (maxiter, Fin tol)
       [Fin 0] [Fin 0] [Fin 1] [Fin 1] [[Fin 1]] False"

lemma demo_env_eq:
  "\<lparr>env_chi_n = [Fin 1], env_chi_b = [Fin 1], env_tax_params = demo_tax_params,
    env_params = demo_ss_params, env_tau_bq = [Fin 0], env_rho = [Fin 0], env_lambdas = [Fin 1],
    env_omega = [Fin 1], env_e = [[Fin 1]]\<rparr> = demo_env"
  by (simp add: demo_env_def)

lemmas demo_eval =
  SS_solver_run_def SS_while.simps SS_iteration_def demo_solve demo_aggregates demo_final
  distance_def damping_def demo_env_eq Let_def

text \<open>
  The four differences that the distance of an iteration is the maximum of, between the
  newly implied values \<open>agg\<close> and the values \<open>st'\<close> the iteration ends with: relative for the
  interest rate, the wage and the scaling factor, and for the transfer relative unless
  the transfer is exactly zero, then absolute.
\<close>

definition differences :: "macro_block \<Rightarrow> aggregates \<Rightarrow> loop_state \<Rightarrow> npfloat list" where
  "differences mb agg st' =
     [pct_diff_func mb (agg_r agg) (ls_r st'),
      pct_diff_func mb (agg_w agg) (ls_w st'),
      (if ls_T_H st' \<noteq> Fin 0 then pct_diff_func mb (agg_T_H agg) (ls_T_H st')
       else \<bar>agg_T_H agg - ls_T_H st'\<bar>),
      pct_diff_func mb (agg_factor agg) (ls_factor st')]"

text \<open>
  An iteration from \<open>st\<close> to \<open>st'\<close> with the decisions \<open>sol\<close> and the implied values \<open>agg\<close>:
  the four macro values are damped towards the implied ones with the weight \<^verbatim>\<open>nu\<close>, and
  the distance is the maximum of the four differences.
\<close>

definition iterates ::
  "macro_block \<Rightarrow> household_block \<Rightarrow> ss_env \<Rightarrow> loop_state \<Rightarrow> loop_state \<Rightarrow> solve_state \<Rightarrow> aggregates
   \<Rightarrow> bool" where
  "iterates mb hb env st st' sol agg \<longleftrightarrow>
     solve_types mb (euler_residual hb env (ls_r st) (ls_w st) (ls_T_H st) (ls_factor st))
       (sp_S (env_params env)) [0..<sp_J (env_params env)] (ls_solve st) = Inr sol
   \<and> implied_aggregates mb env (ss_bssmat sol) (ss_nssmat sol) (ls_factor st) = Inr agg
   \<and> ls_r st' = convex_combo mb (agg_r agg) (ls_r st) (ls_nu st)
   \<and> ls_w st' = convex_combo mb (agg_w agg) (ls_w st) (ls_nu st)
   \<and> ls_factor st' = convex_combo mb (agg_factor agg) (ls_factor st) (ls_nu st)
   \<and> ls_T_H st' = convex_combo mb (agg_T_H agg) (ls_T_H st) (ls_nu st)
   \<and> np_max (differences mb agg st') = Inr (ls_dist st')"

lemma np_max_from_NaN [simp]: "np_max_from NaN xs = NaN"
  by (induction xs) simp_all

lemma np_max_from_Fin:
  "np_max_from x xs = Fin d \<Longrightarrow> \<forall>c \<in> set (x # xs). \<exists>a. c = Fin a \<and> a \<le> d"
proof (induction xs arbitrary: x)
  case Nil
  then show ?case by simp
next
  case (Cons y ys)
  show ?case
  proof (cases x)
    case NaN
    with Cons.prems show ?thesis by simp
  next
    case (Fin a)
    show ?thesis
    proof (cases y)
      case NaN
      with Fin Cons.prems show ?thesis by simp
    next
      case (Fin b)
      with \<open>x = Fin a\<close> Cons.prems have "np_max_from (Fin (max a b)) ys = Fin d" by simp
      from Cons.IH [OF this] have *: "\<forall>c \<in> set (Fin (max a b) # ys). \<exists>a. c = Fin a \<and> a \<le> d" .
      then have "max a b \<le> d" by simp
      with * \<open>x = Fin a\<close> Fin show ?thesis by auto
    qed
  qed
qed

lemma np_max_le:
  assumes "np_max xs = Inr m" and "m \<le> tol"
  shows "list_all (\<lambda>c. c \<le> tol) xs"
proof -
  from assms(2) obtain d t where m: "m = Fin d" and t: "tol = Fin t" and dt: "d \<le> t"
    by (cases m; cases tol) simp_all
  from assms(1) obtain x ys where xs: "xs = x # ys" and "np_max_from x ys = m"
    by (cases xs) simp_all
  with m have "\<forall>c \<in> set (x # ys). \<exists>a. c = Fin a \<and> a \<le> d"
    using np_max_from_Fin by blast
  with xs t dt show ?thesis
    by (fastforce simp: list_all_iff)
qed

lemma SS_iteration_Inr:
  assumes "SS_iteration mb hb env st = Inr st'"
  obtains sol agg dst dist_vec nu' shown where
    "solve_types mb (euler_residual hb env (ls_r st) (ls_w st) (ls_T_H st) (ls_factor st))
       (sp_S (env_params env)) [0..<sp_J (env_params env)] (ls_solve st) = Inr sol"
    "implied_aggregates mb env (ss_bssmat sol) (ss_nssmat sol) (ls_factor st) = Inr agg"
    "distance mb (agg_r agg) (convex_combo mb (agg_r agg) (ls_r st) (ls_nu st))
       (agg_w agg) (convex_combo mb (agg_w agg) (ls_w st) (ls_nu st))
       (agg_T_H agg) (convex_combo mb (agg_T_H agg) (ls_T_H st) (ls_nu st))
       (agg_factor agg) (convex_combo mb (agg_factor agg) (ls_factor st) (ls_nu st)) = Inr dst"
    "damping (ls_dist_vec st) (ls_iteration st) dst (ls_nu st) = Inr (dist_vec, nu', shown)"
    "st' = \<lparr>ls_w = convex_combo mb (agg_w agg) (ls_w st) (ls_nu st),
           ls_r = convex_combo mb (agg_r agg) (ls_r st) (ls_nu st),
           ls_T_H = convex_combo mb (agg_T_H agg) (ls_T_H st) (ls_nu st),
           ls_factor = convex_combo mb (agg_factor agg) (ls_factor st) (ls_nu st),
           ls_nu = nu', ls_dist = dst, ls_iteration = ls_iteration st + 1, ls_dist_vec = dist_vec,
           ls_solve = sol\<lparr>ss_stdout := ss_stdout sol @ shown @ [(''Iteration, Distance: '', dst)]\<rparr>\<rparr>"
proof -
  from assms obtain sol where 1: "solve_types mb (euler_residual hb env (ls_r st) (ls_w st) (ls_T_H st) (ls_factor st))
       (sp_S (env_params env)) [0..<sp_J (env_params env)] (ls_solve st) = Inr sol"
    unfolding SS_iteration_def Let_def by (auto simp only: bindR_eq_Inr)
  from assms 1 obtain agg where 2: "implied_aggregates mb env (ss_bssmat sol) (ss_nssmat sol) (ls_factor st) = Inr agg"
    unfolding SS_iteration_def Let_def by (auto simp only: bindR_eq_Inr sum.inject)
  from assms 1 2 obtain dst where 3: "distance mb (agg_r agg) (convex_combo mb (agg_r agg) (ls_r st) (ls_nu st))
       (agg_w agg) (convex_combo mb (agg_w agg) (ls_w st) (ls_nu st))
       (agg_T_H agg) (convex_combo mb (agg_T_H agg) (ls_T_H st) (ls_nu st))
       (agg_factor agg) (convex_combo mb (agg_factor agg) (ls_factor st) (ls_nu st)) = Inr dst"
    unfolding SS_iteration_def Let_def by (auto simp only: bindR_eq_Inr sum.inject)
  from assms 1 2 3 obtain t where 4: "damping (ls_dist_vec st) (ls_iteration st) dst (ls_nu st) = Inr t"
    unfolding SS_iteration_def Let_def by (auto simp only: bindR_eq_Inr sum.inject)
  obtain dist_vec nu' shown where t: "t = (dist_vec, nu', shown)" by (cases t) auto
  from assms 1 2 3 4 t have "st' = \<lparr>ls_w = convex_combo mb (agg_w agg) (ls_w st) (ls_nu st),
           ls_r = convex_combo mb (agg_r agg) (ls_r st) (ls_nu st),
           ls_T_H = convex_combo mb (agg_T_H agg) (ls_T_H st) (ls_nu st),
           ls_factor = convex_combo mb (agg_factor agg) (ls_factor st) (ls_nu st),
           ls_nu = nu', ls_dist = dst, ls_iteration = ls_iteration st + 1, ls_dist_vec = dist_vec,
           ls_solve = sol\<lparr>ss_stdout := ss_stdout sol @ shown @ [(''Iteration, Distance: '', dst)]\<rparr>\<rparr>"
    unfolding SS_iteration_def Let_def by simp
  with 1 2 3 4 t that show thesis by blast
qed

lemma distance_differences:
  "distance mb nr r nw w nt t nf f =
     np_max [pct_diff_func mb nr r, pct_diff_func mb nw w,
             (if t \<noteq> Fin 0 then pct_diff_func mb nt t else \<bar>nt - t\<bar>), pct_diff_func mb nf f]"
  by (simp add: distance_def del: np_max_simps)

lemma SS_iteration_iterates:
  assumes "SS_iteration mb hb env st = Inr st'"
  shows "\<exists>sol agg. iterates mb hb env st st' sol agg"
proof -
  from assms obtain sol agg dst dist_vec nu' shown where
    1: "solve_types mb (euler_residual hb env (ls_r st) (ls_w st) (ls_T_H st) (ls_factor st))
       (sp_S (env_params env)) [0..<sp_J (env_params env)] (ls_solve st) = Inr sol"
    and 2: "implied_aggregates mb env (ss_bssmat sol) (ss_nssmat sol) (ls_factor st) = Inr agg"
    and 3: "distance mb (agg_r agg) (convex_combo mb (agg_r agg) (ls_r st) (ls_nu st))
       (agg_w agg) (convex_combo mb (agg_w agg) (ls_w st) (ls_nu st))
       (agg_T_H agg) (convex_combo mb (agg_T_H agg) (ls_T_H st) (ls_nu st))
       (agg_factor agg) (convex_combo mb (agg_factor agg) (ls_factor st) (ls_nu st)) = Inr dst"
    and 5: "st' = \<lparr>ls_w = convex_combo mb (agg_w agg) (ls_w st) (ls_nu st),
           ls_r = convex_combo mb (agg_r agg) (ls_r st) (ls_nu st),
           ls_T_H = convex_combo mb (agg_T_H agg) (ls_T_H st) (ls_nu st),
           ls_factor = convex_combo mb (agg_factor agg) (ls_factor st) (ls_nu st),
           ls_nu = nu', ls_dist = dst, ls_iteration = ls_iteration st + 1, ls_dist_vec = dist_vec,
           ls_solve = sol\<lparr>ss_stdout := ss_stdout sol @ shown @ [(''Iteration, Distance: '', dst)]\<rparr>\<rparr>"
    by (rule SS_iteration_Inr)
  from 3 5 have "np_max (differences mb agg st') = Inr (ls_dist st')"
    by (auto simp: distance_differences differences_def simp del: np_max_simps split: if_splits)
  with 1 2 5 have "iterates mb hb env st st' sol agg"
    by (simp add: iterates_def)
  then show ?thesis by blast
qed

lemma SS_while_exit:
  "SS_while mb hb env tol maxiter st0 = Inr st \<Longrightarrow>
   st = st0 \<or> (\<exists>prev. SS_iteration mb hb env prev = Inr st)"
proof (induction mb hb env tol maxiter st0 rule: SS_while.induct)
  case (1 mb hb env tol maxiter st0)
  show ?case
  proof (cases "tol < ls_dist st0 \<and> ls_iteration st0 < maxiter")
    case False
    with "1.prems" show ?thesis by (simp add: SS_while.simps)
  next
    case True
    with "1.prems" obtain st1 where s1: "SS_iteration mb hb env st0 = Inr st1"
      and w: "SS_while mb hb env tol maxiter st1 = Inr st"
      by (subst (asm) SS_while.simps) (auto split: sum.splits)
    from "1.IH" [OF True s1 w] s1 show ?thesis by blast
  qed
qed

text \<open>
  C3. In every iteration the distance is the maximum of the four differences between the
  newly implied values and the damped values the iteration ends with, the transfer's
  difference being absolute exactly when the damped transfer is zero. So when the loop
  has run at least once and ends with a distance that is at most the tolerance, each of
  the four differences of its last iteration is at most the tolerance. (The loop runs
  while \<^verbatim>\<open>dist > mindist_SS\<close>: it ends on a distance equal to the tolerance too, and on
  a \<open>NaN\<close> distance, which is not at most the tolerance.)
\<close>

theorem SS_solver_distance:
  "(\<forall>st st'. SS_iteration mb hb env st = Inr st' \<longrightarrow> (\<exists>sol agg. iterates mb hb env st st' sol agg))
   \<and> (\<forall>mindist_SS maxiter st0 st.
         SS_while mb hb env mindist_SS maxiter st0 = Inr st \<and> ls_iteration st0 < ls_iteration st
           \<and> ls_dist st \<le> mindist_SS \<longrightarrow>
         (\<exists>prev sol agg. iterates mb hb env prev st sol agg
            \<and> list_all (\<lambda>c. c \<le> mindist_SS) (differences mb agg st)))"
proof (intro conjI allI impI)
  fix st st' assume "SS_iteration mb hb env st = Inr st'"
  then show "\<exists>sol agg. iterates mb hb env st st' sol agg" by (rule SS_iteration_iterates)
next
  fix mindist_SS maxiter st0 st
  assume a: "SS_while mb hb env mindist_SS maxiter st0 = Inr st \<and> ls_iteration st0 < ls_iteration st
           \<and> ls_dist st \<le> mindist_SS"
  then have "st \<noteq> st0" by blast
  with a SS_while_exit obtain prev where "SS_iteration mb hb env prev = Inr st" by blast
  then obtain sol agg where i: "iterates mb hb env prev st sol agg"
    using SS_iteration_iterates by blast
  then have "np_max (differences mb agg st) = Inr (ls_dist st)" by (simp add: iterates_def)
  with a have "list_all (\<lambda>c. c \<le> mindist_SS) (differences mb agg st)"
    using np_max_le by blast
  with i show "\<exists>prev sol agg. iterates mb hb env prev st sol agg
            \<and> list_all (\<lambda>c. c \<le> mindist_SS) (differences mb agg st)" by blast
qed

lemma replicate_10: "replicate 10 x = [x, x, x, x, x, x, x, x, x, x]"
  by (simp add: numeral_eq_Suc)

lemma demo_first_iteration:
  "SS_iteration demo_macro demo_block demo_env demo_start = Inr demo_second"
  by (simp add: demo_start_def demo_second_def SS_iteration_def demo_solve demo_aggregates
      distance_def damping_def replicate_11 replicate_10 Let_def del: solve_types.simps)

lemma demo_leaves_after_one:
  "SS_while demo_macro demo_block demo_env (Fin 1) 11 demo_start = Inr demo_second"
proof -
  have "SS_while demo_macro demo_block demo_env (Fin 1) 11 demo_second = Inr demo_second"
    by (subst SS_while.simps) (simp add: demo_second_def)
  then show ?thesis
    by (subst SS_while.simps) (simp add: demo_first_iteration, simp add: demo_start_def)
qed

theorem SS_solver_distance_witness:
  "SS_iteration demo_macro demo_block demo_env demo_start = Inr demo_second
   \<and> SS_while demo_macro demo_block demo_env (Fin 1) 11 demo_start = Inr demo_second
   \<and> ls_iteration demo_start < ls_iteration demo_second
   \<and> ls_dist demo_second \<le> Fin 1
   \<and> (\<exists>sol agg. iterates demo_macro demo_block demo_env demo_start demo_second sol agg)
   \<and> (\<exists>prev sol agg. iterates demo_macro demo_block demo_env prev demo_second sol agg
        \<and> list_all (\<lambda>c. c \<le> Fin 1) (differences demo_macro agg demo_second))"
proof -
  have h3: "ls_iteration demo_start < ls_iteration demo_second"
    and h4: "ls_dist demo_second \<le> Fin 1"
    by (simp_all add: demo_start_def demo_second_def)
  note t = SS_solver_distance [of demo_macro demo_block demo_env]
  from t demo_first_iteration
  have c1: "\<exists>sol agg. iterates demo_macro demo_block demo_env demo_start demo_second sol agg"
    by blast
  from t demo_leaves_after_one h3 h4
  have c2: "\<exists>prev sol agg. iterates demo_macro demo_block demo_env prev demo_second sol agg
        \<and> list_all (\<lambda>c. c \<le> Fin 1) (differences demo_macro agg demo_second)"
    by blast
  from demo_first_iteration demo_leaves_after_one h3 h4 c1 c2 show ?thesis by blast
qed













lemma replicate_1: "replicate 1 x = [x]"
  by (simp add: numeral_eq_Suc)

lemma demo_one:
  "\<exists>run. demo_run 1 (1 / 10 ^ 9) = Inr run
     \<and> map (\<lambda>c. fs_fvec (snd c)) (fin_calls (run_final run)) = [[Fin (- 3), Fin 1]]
     \<and> map (\<lambda>c. fs_ier (snd c)) (fin_calls (run_final run)) = [5]
     \<and> fin_eul_errors (run_final run) = [Fin 1]
     \<and> fin_stdout (run_final run)
         = [(''Max Euler errors: '', Fin 3), (''SS fsolve euler error:'', Fin 1)]"
  unfolding demo_run_def
  by (simp add: demo_eval del: solve_types.simps final_types.simps)

text \<open>
  C8. On the economy above the root finder answers with the residuals \<open>-3\<close> and \<open>1\<close> and
  the flag \<open>ier = 5\<close> of a search that did not converge. \<^verbatim>\<open>SS_solver\<close> raises nothing, but
  the entry of \<^verbatim>\<open>eul_errors\<close> and the line \<^verbatim>\<open>SS fsolve euler error:\<close> show \<open>1\<close>, the
  maximum of the residuals as they are (line 429), where the line \<^verbatim>\<open>Max Euler errors:\<close>
  shows \<open>3\<close>, the maximum of their absolute values (line 430).
\<close>

theorem SS_solver_euler_error_signed:
  "\<not> isl (demo_run 1 (1 / 10 ^ 9))
   \<and> map (\<lambda>c. fs_fvec (snd c)) (fin_calls (run_final (projr (demo_run 1 (1 / 10 ^ 9)))))
       = [[Fin (- 3), Fin 1]]
   \<and> map (\<lambda>c. fs_ier (snd c)) (fin_calls (run_final (projr (demo_run 1 (1 / 10 ^ 9))))) = [5]
   \<and> fin_eul_errors (run_final (projr (demo_run 1 (1 / 10 ^ 9)))) = [Fin 1]
   \<and> fin_stdout (run_final (projr (demo_run 1 (1 / 10 ^ 9))))
       = [(''Max Euler errors: '', Fin 3), (''SS fsolve euler error:'', Fin 1)]"
proof -
  from demo_one obtain run where "demo_run 1 (1 / 10 ^ 9) = Inr run"
    "map (\<lambda>c. fs_fvec (snd c)) (fin_calls (run_final run)) = [[Fin (- 3), Fin 1]]"
    "map (\<lambda>c. fs_ier (snd c)) (fin_calls (run_final run)) = [5]"
    "fin_eul_errors (run_final run) = [Fin 1]"
    "fin_stdout (run_final run)
       = [(''Max Euler errors: '', Fin 3), (''SS fsolve euler error:'', Fin 1)]"
    by (elim exE conjE)
  then show ?thesis by simp
qed

text \<open>
  The contract of the root finder that the seeds of the later types rest on: its solution
  has the length of the seed.
\<close>

definition keeps_length :: "macro_block \<Rightarrow> bool" where
  "keeps_length mb \<longleftrightarrow>
     (\<forall>F x tol out. fsolve mb F x tol = Inr out \<longrightarrow> length (fs_solutions out) = length x)"

lemma has_shape_column:
  assumes "has_shape s jn m" and "i < jn"
  shows "column m i = Inr (map (\<lambda>row. row ! i) m)"
  using assms by (auto simp: has_shape_def column_def list_all_iff)

lemma set_column_shape:
  assumes "has_shape s jn m" and "i < jn" and "length v = s"
  shows "\<exists>m'. set_column m i v = Inr m' \<and> has_shape s jn m' \<and> map (\<lambda>row. row ! i) m' = v"
proof -
  from assms have ok: "list_all (\<lambda>row. i < length row) m" and len: "length v = length m"
    by (auto simp: has_shape_def list_all_iff)
  let ?m' = "map (\<lambda>(row, x). row[i := x]) (zip m v)"
  from ok len have 1: "set_column m i v = Inr ?m'" by (simp add: set_column_def)
  from assms len have 2: "has_shape s jn ?m'"
    by (auto simp: has_shape_def list_all_iff dest: set_zip_leftD)
  have 3: "map (\<lambda>row. row ! i) ?m' = v"
  proof (rule nth_equalityI)
    show "length (map (\<lambda>row. row ! i) ?m') = length v" using len by simp
  next
    fix n assume "n < length (map (\<lambda>row. row ! i) ?m')"
    with len have n: "n < length m" "n < length v" by simp_all
    with ok have "i < length (m ! n)" by (simp add: list_all_length)
    with n show "map (\<lambda>row. row ! i) ?m' ! n = v ! n" by simp
  qed
  from 1 2 3 show ?thesis by blast
qed

lemma has_shape_length_column: "has_shape s jn m \<Longrightarrow> length (map f m) = s"
  by (simp add: has_shape_def)

lemma solve_types_calls:
  assumes kl: "keeps_length mb"
  shows "solve_types mb F s [k..<jn] st = Inr st' \<Longrightarrow>
         has_shape s jn (ss_bssmat st) \<Longrightarrow> has_shape s jn (ss_nssmat st) \<Longrightarrow>
         has_shape s jn (ss_bssmat st') \<and> has_shape s jn (ss_nssmat st')
         \<and> (\<exists>calls. ss_calls st' = ss_calls st @ calls \<and> length calls = jn - k
              \<and> (k < jn \<longrightarrow> fst (calls ! 0) =
                    map (\<lambda>x. x * Fin (9 / 10))
                      (map (\<lambda>row. row ! (k - 1)) (ss_bssmat st)
                       @ map (\<lambda>row. row ! (k - 1)) (ss_nssmat st)))
              \<and> (\<forall>i. 0 < i \<and> i < jn - k \<longrightarrow> fst (calls ! i) =
                    map (\<lambda>x. x * Fin (9 / 10)) (fs_solutions (snd (calls ! (i - 1))))))"
proof (induction "jn - k" arbitrary: k st)
  case 0
  then have le: "jn \<le> k" by simp
  then have "[k..<jn] = []" by simp
  with "0.prems" have "st' = st" by simp
  with le "0.prems" show ?case by simp
next
  case (Suc n)
  then have k: "k < jn" and up: "[k..<jn] = k # [Suc k..<jn]" and n: "n = jn - Suc k"
    by (simp_all add: upt_conv_Cons)
  let ?b = "ss_bssmat st" and ?n = "ss_nssmat st"
  let ?x0 = "map (\<lambda>x. x * Fin (9 / 10))
               (map (\<lambda>row. row ! (k - 1)) ?b @ map (\<lambda>row. row ! (k - 1)) ?n)"
  from k have k1: "k - 1 < jn" by simp
  have cb: "column ?b (if k = 0 then k else k - 1) = Inr (map (\<lambda>row. row ! (k - 1)) ?b)"
    using has_shape_column [OF Suc.prems(2) k1] by (cases k) simp_all
  have cn: "column ?n (if k = 0 then k else k - 1) = Inr (map (\<lambda>row. row ! (k - 1)) ?n)"
    using has_shape_column [OF Suc.prems(3) k1] by (cases k) simp_all
  from Suc.prems(1) up cb cn obtain out shown b' n' where
    out: "fsolve mb (F k) ?x0 (Fin (1 / 10 ^ 13)) = Inr out"
    and b': "set_column ?b k (take s (fs_solutions out)) = Inr b'"
    and n': "set_column ?n k (drop s (fs_solutions out)) = Inr n'"
    and rest: "solve_types mb F s [Suc k..<jn]
         \<lparr>ss_bssmat = b', ss_nssmat = n', ss_calls = ss_calls st @ [(?x0, out)],
          ss_stdout = ss_stdout st @ [(''Max Euler errors: '', shown)]\<rparr> = Inr st'"
    by (auto simp: bindR_eq_Inr Let_def simp del: np_max_simps)
  let ?st1 = "\<lparr>ss_bssmat = b', ss_nssmat = n', ss_calls = ss_calls st @ [(?x0, out)],
          ss_stdout = ss_stdout st @ [(''Max Euler errors: '', shown)]\<rparr>"
  have lx: "length ?x0 = 2 * s"
    using Suc.prems(2,3) by (simp add: has_shape_def)
  with kl out have ls: "length (fs_solutions out) = 2 * s"
    unfolding keeps_length_def by metis
  then have lt: "length (take s (fs_solutions out)) = s" and ld: "length (drop s (fs_solutions out)) = s"
    by simp_all
  from set_column_shape [OF Suc.prems(2) k lt] b'
  have sb: "has_shape s jn b'" and colb: "map (\<lambda>row. row ! k) b' = take s (fs_solutions out)"
    by auto
  from set_column_shape [OF Suc.prems(3) k ld] n'
  have sn: "has_shape s jn n'" and coln: "map (\<lambda>row. row ! k) n' = drop s (fs_solutions out)"
    by auto
  from Suc.hyps(1) [OF n rest] sb sn
  obtain calls1 where sh: "has_shape s jn (ss_bssmat st')" "has_shape s jn (ss_nssmat st')"
    and c1: "ss_calls st' = (ss_calls st @ [(?x0, out)]) @ calls1"
    and l1: "length calls1 = jn - Suc k"
    and f1: "Suc k < jn \<longrightarrow> fst (calls1 ! 0) =
               map (\<lambda>x. x * Fin (9 / 10)) (map (\<lambda>row. row ! k) b' @ map (\<lambda>row. row ! k) n')"
    and r1: "\<forall>i. 0 < i \<and> i < jn - Suc k \<longrightarrow> fst (calls1 ! i) =
               map (\<lambda>x. x * Fin (9 / 10)) (fs_solutions (snd (calls1 ! (i - 1))))"
    by auto
  let ?calls = "(?x0, out) # calls1"
  have a: "ss_calls st' = ss_calls st @ ?calls" using c1 by simp
  have b: "length ?calls = jn - k" using l1 k by simp
  have c: "fst (?calls ! 0) = ?x0" by simp
  have d: "\<forall>i. 0 < i \<and> i < jn - k \<longrightarrow> fst (?calls ! i) =
               map (\<lambda>x. x * Fin (9 / 10)) (fs_solutions (snd (?calls ! (i - 1))))"
  proof (intro allI impI)
    fix i assume i: "0 < i \<and> i < jn - k"
    show "fst (?calls ! i) = map (\<lambda>x. x * Fin (9 / 10)) (fs_solutions (snd (?calls ! (i - 1))))"
    proof (cases "i = 1")
      case True
      with i have "Suc k < jn" by simp
      with f1 colb coln have "fst (calls1 ! 0) = map (\<lambda>x. x * Fin (9 / 10)) (fs_solutions out)"
        by simp
      with True show ?thesis by simp
    next
      case False
      with i have i1: "0 < i - 1 \<and> i - 1 < jn - Suc k" by auto
      from r1 i1 have "fst (calls1 ! (i - 1)) =
               map (\<lambda>x. x * Fin (9 / 10)) (fs_solutions (snd (calls1 ! (i - 1 - 1))))" by blast
      with i False show ?thesis by (cases i) (auto simp: nth_Cons')
    qed
  qed
  from sh a b c d show ?case by blast
qed

text \<open>The same economy with two ability types, and a state to start an iteration from.\<close>

definition demo_env2 :: ss_env where
  "demo_env2 =
     \<lparr>env_chi_n = [Fin 1], env_chi_b = [Fin 1, Fin 1], env_tax_params = demo_tax_params,
      env_params = demo_ss_params\<lparr>sp_J := 2\<rparr>, env_tau_bq = [Fin 0, Fin 0], env_rho = [Fin 0],
      env_lambdas = [Fin (1 / 2), Fin (1 / 2)], env_omega = [Fin 1], env_e = [[Fin 1, Fin 1]]\<rparr>"

definition demo_start2 :: loop_state where
  "demo_start2 =
     \<lparr>ls_w = Fin 1, ls_r = Fin 1, ls_T_H = Fin 1, ls_factor = Fin 1, ls_nu = Fin (1 / 2),
      ls_dist = Fin 10, ls_iteration = 0, ls_dist_vec = [Fin 0],
      ls_solve = \<lparr>ss_bssmat = [[Fin 1, Fin 2]], ss_nssmat = [[Fin 1, Fin 1]], ss_calls = [],
                  ss_stdout = []\<rparr>\<rparr>"

lemma demo_two:
  "\<exists>st'. SS_iteration demo_macro demo_block demo_env2 demo_start2 = Inr st'
      \<and> map fst (ss_calls (ls_solve st')) = [[Fin (9 / 10), Fin (9 / 10)], [Fin (18 / 5), Fin (9 / 10)]]
      \<and> map (\<lambda>c. fs_solutions (snd c)) (ss_calls (ls_solve st')) = [[Fin 4, Fin 1], [Fin 16, Fin 1]]"
  by (simp add: SS_iteration_def demo_env2_def demo_start2_def demo_ss_params_def demo_macro_def
      demo_tax_params_def implied_aggregates_def average_income_def has_shape_def reshape_col_def
      reshape_row_def distance_def damping_def column_def set_column_def Let_def upt_rec)

lemma keeps_length_demo: "keeps_length demo_macro"
  by (auto simp: keeps_length_def demo_macro_def split: list.splits)

lemma SS_iteration_solve:
  assumes "SS_iteration mb hb env st = Inr st'"
  shows "\<exists>sol. solve_types mb (euler_residual hb env (ls_r st) (ls_w st) (ls_T_H st) (ls_factor st))
              (sp_S (env_params env)) [0..<sp_J (env_params env)] (ls_solve st) = Inr sol
           \<and> ss_bssmat (ls_solve st') = ss_bssmat sol \<and> ss_nssmat (ls_solve st') = ss_nssmat sol
           \<and> ss_calls (ls_solve st') = ss_calls sol"
  using assms
proof (rule SS_iteration_Inr)
  fix sol agg dst dist_vec nu' shown
  assume 1: "solve_types mb (euler_residual hb env (ls_r st) (ls_w st) (ls_T_H st) (ls_factor st))
       (sp_S (env_params env)) [0..<sp_J (env_params env)] (ls_solve st) = Inr sol"
    and 5: "st' = \<lparr>ls_w = convex_combo mb (agg_w agg) (ls_w st) (ls_nu st),
           ls_r = convex_combo mb (agg_r agg) (ls_r st) (ls_nu st),
           ls_T_H = convex_combo mb (agg_T_H agg) (ls_T_H st) (ls_nu st),
           ls_factor = convex_combo mb (agg_factor agg) (ls_factor st) (ls_nu st),
           ls_nu = nu', ls_dist = dst, ls_iteration = ls_iteration st + 1, ls_dist_vec = dist_vec,
           ls_solve = sol\<lparr>ss_stdout := ss_stdout sol @ shown @ [(''Iteration, Distance: '', dst)]\<rparr>\<rparr>"
  from 1 5 show ?thesis by simp
qed

text \<open>
  C6. In an iteration of the outer loop on decision arrays of shape \<open>[S, J]\<close>, with a root
  finder whose solution has the length of its seed, the root finder is called once per
  ability type, in order. The seed of type \<open>0\<close> is \<open>0.9\<close> times the savings column of type
  \<open>0\<close> followed by its labor column, as the iteration found them; the seed of a type
  \<open>j \<ge> 1\<close> is \<open>0.9\<close> times the first \<open>S\<close> entries (savings) followed by the remaining
  entries (labor) of the solution the root finder has just returned for type \<open>j - 1\<close>. The
  arrays keep their shape, so the same holds for the next iteration.
\<close>

theorem SS_solver_seeds:
  assumes "SS_iteration mb hb env st = Inr st'"
      and "has_shape (sp_S (env_params env)) (sp_J (env_params env)) (ss_bssmat (ls_solve st))"
      and "has_shape (sp_S (env_params env)) (sp_J (env_params env)) (ss_nssmat (ls_solve st))"
      and "keeps_length mb"
  shows "has_shape (sp_S (env_params env)) (sp_J (env_params env)) (ss_bssmat (ls_solve st'))
       \<and> has_shape (sp_S (env_params env)) (sp_J (env_params env)) (ss_nssmat (ls_solve st'))
       \<and> (\<exists>calls. ss_calls (ls_solve st') = ss_calls (ls_solve st) @ calls
            \<and> length calls = sp_J (env_params env)
            \<and> (0 < sp_J (env_params env) \<longrightarrow> fst (calls ! 0) =
                  map (\<lambda>x. x * Fin (9 / 10))
                    (map (\<lambda>row. row ! 0) (ss_bssmat (ls_solve st))
                     @ map (\<lambda>row. row ! 0) (ss_nssmat (ls_solve st))))
            \<and> (\<forall>jj. 0 < jj \<and> jj < sp_J (env_params env) \<longrightarrow> fst (calls ! jj) =
                  map (\<lambda>x. x * Fin (9 / 10))
                    (take (sp_S (env_params env)) (fs_solutions (snd (calls ! (jj - 1))))
                     @ drop (sp_S (env_params env)) (fs_solutions (snd (calls ! (jj - 1)))))))"
proof -
  from SS_iteration_solve [OF assms(1)] obtain sol where
    sol: "solve_types mb (euler_residual hb env (ls_r st) (ls_w st) (ls_T_H st) (ls_factor st))
              (sp_S (env_params env)) [0..<sp_J (env_params env)] (ls_solve st) = Inr sol"
    and eq: "ss_bssmat (ls_solve st') = ss_bssmat sol" "ss_nssmat (ls_solve st') = ss_nssmat sol"
      "ss_calls (ls_solve st') = ss_calls sol"
    by blast
  from solve_types_calls [OF assms(4) sol assms(2) assms(3)] eq show ?thesis
    by simp
qed

theorem SS_solver_seeds_witness:
  "has_shape (sp_S (env_params demo_env2)) (sp_J (env_params demo_env2)) (ss_bssmat (ls_solve demo_start2))
   \<and> has_shape (sp_S (env_params demo_env2)) (sp_J (env_params demo_env2)) (ss_nssmat (ls_solve demo_start2))
   \<and> keeps_length demo_macro
   \<and> (\<exists>st'. SS_iteration demo_macro demo_block demo_env2 demo_start2 = Inr st'
        \<and> map fst (ss_calls (ls_solve st'))
            = [[Fin (9 / 10), Fin (9 / 10)], [Fin (18 / 5), Fin (9 / 10)]]
        \<and> map (\<lambda>c. fs_solutions (snd c)) (ss_calls (ls_solve st')) = [[Fin 4, Fin 1], [Fin 16, Fin 1]]
        \<and> fst (ss_calls (ls_solve st') ! 1)
            = map (\<lambda>x. x * Fin (9 / 10))
                (take 1 (fs_solutions (snd (ss_calls (ls_solve st') ! 0)))
                 @ drop 1 (fs_solutions (snd (ss_calls (ls_solve st') ! 0)))))"
proof -
  have b: "has_shape (sp_S (env_params demo_env2)) (sp_J (env_params demo_env2))
             (ss_bssmat (ls_solve demo_start2))"
    and n: "has_shape (sp_S (env_params demo_env2)) (sp_J (env_params demo_env2))
             (ss_nssmat (ls_solve demo_start2))"
    by (simp_all add: has_shape_def demo_env2_def demo_start2_def demo_ss_params_def)
  from demo_two obtain st' where
    it: "SS_iteration demo_macro demo_block demo_env2 demo_start2 = Inr st'"
    and seeds: "map fst (ss_calls (ls_solve st'))
            = [[Fin (9 / 10), Fin (9 / 10)], [Fin (18 / 5), Fin (9 / 10)]]"
    and sols: "map (\<lambda>c. fs_solutions (snd c)) (ss_calls (ls_solve st')) = [[Fin 4, Fin 1], [Fin 16, Fin 1]]"
    by (elim exE conjE)
  from SS_solver_seeds [OF it b n keeps_length_demo]
  obtain calls where c: "ss_calls (ls_solve st') = ss_calls (ls_solve demo_start2) @ calls"
    and r: "\<forall>jj. 0 < jj \<and> jj < sp_J (env_params demo_env2) \<longrightarrow> fst (calls ! jj) =
                  map (\<lambda>x. x * Fin (9 / 10))
                    (take (sp_S (env_params demo_env2)) (fs_solutions (snd (calls ! (jj - 1))))
                     @ drop (sp_S (env_params demo_env2)) (fs_solutions (snd (calls ! (jj - 1)))))"
    by (elim exE conjE)
  from c have cs: "calls = ss_calls (ls_solve st')" by (simp add: demo_start2_def)
  have j: "0 < (1::nat) \<and> 1 < sp_J (env_params demo_env2)"
    by (simp add: demo_env2_def)
  from r [rule_format, OF j] cs have last: "fst (ss_calls (ls_solve st') ! 1)
            = map (\<lambda>x. x * Fin (9 / 10))
                (take 1 (fs_solutions (snd (ss_calls (ls_solve st') ! 0)))
                 @ drop 1 (fs_solutions (snd (ss_calls (ls_solve st') ! 0))))"
    by (simp add: demo_env2_def demo_ss_params_def)
  from it seeds sols last
  have e: "\<exists>st'. SS_iteration demo_macro demo_block demo_env2 demo_start2 = Inr st'
        \<and> map fst (ss_calls (ls_solve st'))
            = [[Fin (9 / 10), Fin (9 / 10)], [Fin (18 / 5), Fin (9 / 10)]]
        \<and> map (\<lambda>c. fs_solutions (snd c)) (ss_calls (ls_solve st')) = [[Fin 4, Fin 1], [Fin 16, Fin 1]]
        \<and> fst (ss_calls (ls_solve st') ! 1)
            = map (\<lambda>x. x * Fin (9 / 10))
                (take 1 (fs_solutions (snd (ss_calls (ls_solve st') ! 0)))
                 @ drop 1 (fs_solutions (snd (ss_calls (ls_solve st') ! 0))))"
    by (intro exI [of _ st'] conjI)
  from b n keeps_length_demo e show ?thesis by (intro conjI)
qed

subsection \<open>The root-finding variants: \<^verbatim>\<open>SS_fsolve\<close> and \<^verbatim>\<open>SS_fsolve_reform\<close>\<close>

text \<open>
  Lines 441 to 552. The signature is \<^verbatim>\<open>SS_fsolve(guesses, params)\<close>; the decision arrays
  and the arguments collected in \<open>env\<close> are the names of the former signature that the
  body still reads. Line 467 builds a tuple \<^verbatim>\<open>ss_params\<close> that nothing reads, from names
  that are not bound there (it reads the local \<^verbatim>\<open>S\<close> before line 470 assigns it, so as
  committed the call stops at this line); the embedding leaves the line out and follows
  the body from line 470.
\<close>

definition SS_fsolve ::
  "macro_block \<Rightarrow> household_block \<Rightarrow> ss_env \<Rightarrow> matrix \<Rightarrow> matrix \<Rightarrow> npfloat list
   \<Rightarrow> py_error + npfloat list" where
  "SS_fsolve mb hb env b_guess_init n_guess_init guesses =
     (let params = env_params env in
      bindR (item guesses 0) (\<lambda>w.
      bindR (item guesses 1) (\<lambda>r.
      bindR (item guesses 2) (\<lambda>T_H.
      bindR (item guesses 3) (\<lambda>factor.
      bindR (solve_types mb (euler_residual hb env r w T_H factor) (sp_S params) [0..<sp_J params]
               \<lparr>ss_bssmat = b_guess_init, ss_nssmat = n_guess_init, ss_calls = [], ss_stdout = []\<rparr>)
        (\<lambda>sol.
      bindR (implied_aggregates mb env (ss_bssmat sol) (ss_nssmat sol) factor) (\<lambda>agg.
      let error1 = agg_w agg - w;
          error2 = agg_r agg - r;
          error3 = agg_T_H agg - T_H;
          error4 = agg_factor agg / Fin 1000000 - factor / Fin 1000000;
          error1 = (if r \<le> Fin 0 then error1 + Fin (10 ^ 9) else error1);
          error2 = (if w \<le> Fin 0 then error2 + Fin (10 ^ 9) else error2)
      in Inr [error1, error2, error3, error4])))))))"

text \<open>
  Lines 554 to 659: the reform variant takes the scaling factor as an argument and solves
  for the wage, the interest rate and the transfer.
\<close>

definition SS_fsolve_reform ::
  "macro_block \<Rightarrow> household_block \<Rightarrow> npfloat list \<Rightarrow> matrix \<Rightarrow> matrix \<Rightarrow> npfloat
   \<Rightarrow> npfloat list \<Rightarrow> npfloat list \<Rightarrow> tax_params \<Rightarrow> ss_parameters \<Rightarrow> nat \<times> npfloat
   \<Rightarrow> npfloat list \<Rightarrow> npfloat list \<Rightarrow> npfloat list \<Rightarrow> npfloat list \<Rightarrow> matrix
   \<Rightarrow> py_error + npfloat list" where
  "SS_fsolve_reform mb hb guesses b_guess_init n_guess_init factor chi_n chi_b tax_params params
       iterative_params tau_bq rho lambdas omega e =
     (let env = \<lparr>env_chi_n = chi_n, env_chi_b = chi_b, env_tax_params = tax_params,
                 env_params = params, env_tau_bq = tau_bq, env_rho = rho, env_lambdas = lambdas,
                 env_omega = omega, env_e = e\<rparr>
      in
      bindR (item guesses 0) (\<lambda>w.
      bindR (item guesses 1) (\<lambda>r.
      bindR (item guesses 2) (\<lambda>T_H.
      bindR (solve_types mb (euler_residual hb env r w T_H factor) (sp_S params) [0..<sp_J params]
               \<lparr>ss_bssmat = b_guess_init, ss_nssmat = n_guess_init, ss_calls = [], ss_stdout = []\<rparr>)
        (\<lambda>sol.
      bindR (implied_aggregates mb env (ss_bssmat sol) (ss_nssmat sol) factor) (\<lambda>agg.
      let error1 = agg_w agg - w;
          error2 = agg_r agg - r;
          error3 = agg_T_H agg - T_H;
          error1 = (if r \<le> Fin 0 then error1 + Fin (10 ^ 9) else error1);
          error2 = (if w \<le> Fin 0 then error2 + Fin (10 ^ 9) else error2)
      in Inr [error1, error2, error3]))))))"


lemma demo_solve_minus:
  "solve_types demo_macro F (Suc 0) [0]
     \<lparr>ss_bssmat = [[Fin 1]], ss_nssmat = [[Fin 1]], ss_calls = [], ss_stdout = []\<rparr>
   = Inr \<lparr>ss_bssmat = [[Fin 4]], ss_nssmat = [[Fin 1]],
          ss_calls = [([Fin (9 / 10), Fin (9 / 10)],
             \<lparr>fs_solutions = [Fin 4, Fin 1],
              fs_fvec = [Fin (- 3), Fin 1], fs_ier = 5, fs_message = ''no progress''\<rparr>)],
          ss_stdout = [(''Max Euler errors: '', Fin 3)]\<rparr>"
  using demo_solve [of F 1 "[]" "[]"] by simp


text \<open>
  The economy above with the mean income of the data at \<open>2\<close>, so that the scaling factor
  its decisions imply is \<open>2\<close>. Its replacement rate is the scaling factor it is given, and
  its transfer is the replacement rate.
\<close>

definition demo_reform_params :: ss_parameters where
  "demo_reform_params = demo_ss_params\<lparr>sp_mean_income_data := Fin 2\<rparr>"

definition demo_reform_env :: ss_env where
  "demo_reform_env = demo_env\<lparr>env_params := demo_reform_params\<rparr>"

lemma demo_reform_aggregates:
  "implied_aggregates demo_macro demo_reform_env [[Fin 4]] [[Fin 1]] (Fin 5)
   = Inr \<lparr>agg_r = Fin 4, agg_w = Fin 1, agg_factor = Fin 2, agg_T_H = Fin 2, agg_theta = [Fin 2]\<rparr>"
  by (simp add: implied_aggregates_def demo_macro_def demo_env_def demo_ss_params_def Let_def
      demo_reform_env_def demo_reform_params_def
      demo_tax_params_def reshape_col_def reshape_row_def average_income_def has_shape_def upt_rec)

lemma demo_reform_env_eq:
  "\<lparr>env_chi_n = [Fin 1], env_chi_b = [Fin 1], env_tax_params = demo_tax_params,
    env_params = demo_reform_params, env_tau_bq = [Fin 0], env_rho = [Fin 0], env_lambdas = [Fin 1],
    env_omega = [Fin 1], env_e = [[Fin 1]]\<rparr> = demo_reform_env"
  by (simp add: demo_env_def demo_reform_env_def)

lemma demo_reform_sizes [simp]: "sp_S demo_reform_params = 1" "sp_J demo_reform_params = 1"
  by (simp_all add: demo_reform_params_def demo_ss_params_def)

text \<open>
  C5. \<^verbatim>\<open>SS_fsolve_reform\<close> returns three residuals and never assigns \<^verbatim>\<open>factor\<close>, but one of
  its computations does not use it: line 638 computes the replacement rate from
  \<^verbatim>\<open>new_factor\<close>, the factor that the decisions imply (line 633). Called with the factor
  \<open>5\<close> on an economy whose decisions imply the factor \<open>2\<close>, the replacement rate is
  computed at \<open>2\<close>, and the transfer residual is \<open>2 - 1\<close>, not \<open>5 - 1\<close>.
\<close>

theorem SS_fsolve_reform_new_factor:
  "SS_fsolve_reform demo_macro demo_block [Fin 1, Fin 1, Fin 1] [[Fin 1]] [[Fin 1]] (Fin 5)
     [Fin 1] [Fin 1] demo_tax_params demo_reform_params (1, Fin 1)
     [Fin 0] [Fin 0] [Fin 1] [Fin 1] [[Fin 1]]
   = Inr [Fin 0, Fin 3, Fin 1]
   \<and> implied_aggregates demo_macro demo_reform_env [[Fin 4]] [[Fin 1]] (Fin 5)
       = Inr \<lparr>agg_r = Fin 4, agg_w = Fin 1, agg_factor = Fin 2, agg_T_H = Fin 2, agg_theta = [Fin 2]\<rparr>"
  by (simp add: SS_fsolve_reform_def demo_reform_env_eq demo_solve_minus demo_reform_aggregates Let_def
      del: solve_types.simps)

subsection \<open>The calibration objective: \<^verbatim>\<open>function_to_minimize\<close>\<close>

text \<open>
  What outlives a call: the entry \<^verbatim>\<open>solutions\<close> of the file
  \<^verbatim>\<open>Saved_moments/SS_init_solutions.pkl\<close>, the warm start of the next call; the labor
  moments of \<^verbatim>\<open>Saved_moments/labor_data_moments.pkl\<close>; and the globals \<^verbatim>\<open>Nfeval\<close>,
  \<^verbatim>\<open>value_all\<close> and \<^verbatim>\<open>chi_params_all\<close>. The files are taken to exist.
\<close>

record calib_store =
  cs_init_solutions :: "npfloat list"
  cs_labor_dist_data :: "npfloat list"
  cs_Nfeval :: nat
  cs_value_all :: "npfloat list"
  cs_chi_params_all :: matrix

text \<open>
  The functions of \<^verbatim>\<open>utils\<close> on arrays that the objective calls, and the constant
  \<^verbatim>\<open>DATASET\<close> of \<^verbatim>\<open>parameters\<close>.
\<close>

record calib_block =
  check_wealth_calibration :: "matrix \<Rightarrow> npfloat \<Rightarrow> ss_parameters \<Rightarrow> npfloat list"
  pct_diff_func_array :: "npfloat list \<Rightarrow> npfloat list \<Rightarrow> npfloat list"
  DATASET :: string

text \<open>\<^verbatim>\<open>a.reshape(s, jn)\<close> of a one-dimensional array, row by row.\<close>

definition reshape2 :: "npfloat list \<Rightarrow> nat \<Rightarrow> nat \<Rightarrow> py_error + matrix" where
  "reshape2 a s jn =
     (if length a = s * jn then Inr (map (\<lambda>i. take jn (drop (i * jn) a)) [0..<s])
      else Inl ValueError)"

text \<open>\<^verbatim>\<open>w, x, y, z = a\<close>: the array must have four entries.\<close>

definition unpack4 :: "npfloat list \<Rightarrow> py_error + npfloat \<times> npfloat \<times> npfloat \<times> npfloat" where
  "unpack4 a = (case a of [w, x, y, z] \<Rightarrow> Inr (w, x, y, z) | _ \<Rightarrow> Inl ValueError)"

text \<open>\<^verbatim>\<open>a *= b\<close> on one-dimensional arrays of one length.\<close>

definition times_array :: "npfloat list \<Rightarrow> npfloat list \<Rightarrow> py_error + npfloat list" where
  "times_array a b =
     (if length a = length b then Inr (map (\<lambda>(x, y). x * y) (zip a b)) else Inl ValueError)"

text \<open>
  Lines 730 to 733: for each ability type, the largest absolute residual of the household
  block at the decisions found.
\<close>

fun euler_errors ::
  "(nat \<Rightarrow> npfloat list \<Rightarrow> py_error + npfloat list) \<Rightarrow> matrix \<Rightarrow> matrix \<Rightarrow> nat list
   \<Rightarrow> npfloat list \<Rightarrow> py_error + npfloat list" where
  "euler_errors F b_new n_new [] eul_error = Inr eul_error"
| "euler_errors F b_new n_new (jj # js) eul_error =
     bindR (column b_new jj) (\<lambda>bcol.
     bindR (column n_new jj) (\<lambda>ncol.
     bindR (F jj (bcol @ ncol)) (\<lambda>res.
     bindR (np_max (map abs res)) (\<lambda>m.
     bindR (set_item eul_error jj m) (\<lambda>eul_error.
     euler_errors F b_new n_new js eul_error)))))"

text \<open>
  What lines 683 to 733 compute: the scaled parameters (the caller's array
  \<^verbatim>\<open>chi_params_init\<close>, multiplied in place), the equilibrium \<^verbatim>\<open>solutions\<close>, the vector
  \<^verbatim>\<open>output\<close> of moment deviations, and the Euler errors by type.
\<close>

record calib_values =
  cv_chi_params_init :: "npfloat list"
  cv_solutions :: "npfloat list"
  cv_output :: "npfloat list"
  cv_eul_error :: "npfloat list"

text \<open>
  Lines 683 to 733. The names \<^verbatim>\<open>rho\<close> and \<^verbatim>\<open>mindist_SS\<close> are read but not bound (the
  parameter is \<^verbatim>\<open>rho_vec\<close>): they are arguments here. \<^verbatim>\<open>SS_fsolve\<close> overwrites the
  decision arrays it is handed; what the root finder leaves in them is not followed, and
  \<^verbatim>\<open>SS_solver\<close> starts from the arrays as loaded.
\<close>

definition calibration_moments ::
  "macro_block \<Rightarrow> household_block \<Rightarrow> calib_block \<Rightarrow> npfloat list \<Rightarrow> npfloat list \<Rightarrow> tax_params
   \<Rightarrow> ss_parameters \<Rightarrow> nat \<times> npfloat \<Rightarrow> npfloat list \<Rightarrow> npfloat list \<Rightarrow> npfloat list
   \<Rightarrow> npfloat list \<Rightarrow> matrix \<Rightarrow> npfloat list \<Rightarrow> npfloat \<Rightarrow> calib_store
   \<Rightarrow> py_error + calib_values" where
  "calibration_moments mb hb cb chi_params_scalars chi_params_init income_tax_parameters
       ss_parameters iterative_params omega_SS rho_vec lambdas tau_bq e rho mindist_SS store =
     (let S = sp_S ss_parameters; J = sp_J ss_parameters in
      bindR (times_array chi_params_init chi_params_scalars) (\<lambda>chi_params_init.
      let solutions = cs_init_solutions store;
          b_guess = take (S * J) solutions;
          n_guess = drop (S * J) (take (2 * S * J) solutions)
      in
      bindR (unpack4 (drop (2 * S * J) solutions)) (\<lambda>(wguess, rguess, factorguess, T_Hguess).
      let guesses = [wguess, rguess, T_Hguess, factorguess];
          env = \<lparr>env_chi_n = drop J chi_params_init, env_chi_b = take J chi_params_init,
                 env_tax_params = income_tax_parameters, env_params = ss_parameters,
                 env_tau_bq = tau_bq, env_rho = rho, env_lambdas = lambdas, env_omega = omega_SS,
                 env_e = e\<rparr>
      in
      bindR (reshape2 b_guess S J) (\<lambda>b_guess_SJ.
      bindR (reshape2 n_guess S J) (\<lambda>n_guess_SJ.
      bindR (fsolve mb (SS_fsolve mb hb env b_guess_SJ n_guess_SJ) guesses mindist_SS) (\<lambda>out.
      bindR (unpack4 (fs_solutions out)) (\<lambda>(wguess, rguess, T_Hguess, factorguess).
      bindR (SS_solver mb hb b_guess_SJ n_guess_SJ wguess rguess T_Hguess factorguess
               (drop J chi_params_init) (take J chi_params_init) income_tax_parameters
               ss_parameters iterative_params tau_bq rho lambdas omega_SS e True) (\<lambda>solutions.
      let b_new = take (S * J) solutions;
          n_new = drop (S * J) (take (2 * S * J) solutions)
      in
      bindR (unpack4 (drop (2 * S * J) solutions)) (\<lambda>(w_new, r_new, factor_new, T_H_new).
      bindR (reshape2 b_new S J) (\<lambda>b_new_SJ.
      let error5 = check_wealth_calibration cb (butlast b_new_SJ) factor_new ss_parameters in
      bindR (reshape2 n_new S J) (\<lambda>n_new_SJ.
      bindR (reshape_row lambdas J) (\<lambda>lambdas_1J.
      let labor_sim = map (\<lambda>row. foldl (+) (Fin 0) (map (\<lambda>(x, y). x * y) (zip row lambdas))) n_new_SJ;
          lab_dist_data = (if DATASET cb = ''SMALL'' then take S (cs_labor_dist_data store)
                           else cs_labor_dist_data store);
          error6 = pct_diff_func_array cb labor_sim lab_dist_data;
          output = error5 @ error6
      in
      bindR (euler_errors (euler_residual hb env r_new w_new T_H_new factor_new) b_new_SJ n_new_SJ
               [0..<J] (replicate J (Fin 1))) (\<lambda>eul_error.
      Inr \<lparr>cv_chi_params_init = chi_params_init, cv_solutions = solutions, cv_output = output,
           cv_eul_error = eul_error\<rparr>)))))))))))))"

text \<open>
  Lines 734 to 752: the guards. A largest Euler error that is \<open>NaN\<close> counts as \<open>1e6\<close>;
  above \<open>1e-4\<close> the vector \<^verbatim>\<open>output\<close> is raised by \<open>1e14\<close>, and otherwise the solutions
  are saved as the next warm start; a scaled parameter that is not positive raises
  \<^verbatim>\<open>output\<close> by \<open>1e14\<close>.
\<close>

definition calibration_guards ::
  "calib_values \<Rightarrow> calib_store \<Rightarrow> py_error + npfloat list \<times> calib_store" where
  "calibration_guards v store =
     bindR (np_max (cv_eul_error v)) (\<lambda>fsolve_no_converg.
     let fsolve_no_converg = (if isnan fsolve_no_converg then Fin (10 ^ 6) else fsolve_no_converg);
         (output, store) =
           (if Fin (1 / 10 ^ 4) < fsolve_no_converg
            then (map (\<lambda>x. x + Fin (10 ^ 14)) (cv_output v), store)
            else (cv_output v, store\<lparr>cs_init_solutions := cv_solutions v\<rparr>));
         output = (if list_ex (\<lambda>x. x \<le> Fin 0) (cv_chi_params_init v)
                   then map (\<lambda>x. x + Fin (10 ^ 14)) output else output)
     in Inr (output, store))"

text \<open>What a call leaves: the value returned, \<^verbatim>\<open>output\<close> after the guards, and the store.\<close>

record calib_result =
  cr_value :: npfloat
  cr_output :: "npfloat list"
  cr_chi_params_init :: "npfloat list"
  cr_store :: calib_store

text \<open>
  Lines 665 to 770. The criterion of lines 753 to 757 is the sum of the squares of
  \<open>100\<close> times the entries of \<^verbatim>\<open>output\<close>, which must have \<open>2J + S\<close> entries.
\<close>

definition function_to_minimize ::
  "macro_block \<Rightarrow> household_block \<Rightarrow> calib_block \<Rightarrow> npfloat list \<Rightarrow> npfloat list \<Rightarrow> tax_params
   \<Rightarrow> ss_parameters \<Rightarrow> nat \<times> npfloat \<Rightarrow> npfloat list \<Rightarrow> npfloat list \<Rightarrow> npfloat list
   \<Rightarrow> npfloat list \<Rightarrow> matrix \<Rightarrow> npfloat list \<Rightarrow> npfloat \<Rightarrow> calib_store
   \<Rightarrow> py_error + calib_result" where
  "function_to_minimize mb hb cb chi_params_scalars chi_params_init income_tax_parameters
       ss_parameters iterative_params omega_SS rho_vec lambdas tau_bq e rho mindist_SS store =
     bindR (calibration_moments mb hb cb chi_params_scalars chi_params_init income_tax_parameters
              ss_parameters iterative_params omega_SS rho_vec lambdas tau_bq e rho mindist_SS store)
       (\<lambda>v.
     bindR (calibration_guards v store) (\<lambda>(output, store).
     if length output \<noteq> 2 * sp_J ss_parameters + sp_S ss_parameters then Inl ValueError
     else
       let val = foldl (+) (Fin 0) (map (\<lambda>x. (Fin 100 * x) * (Fin 100 * x)) output) in
       bindR (set_item (cs_value_all store) (cs_Nfeval store) val) (\<lambda>value_all.
       bindR (set_column (cs_chi_params_all store) (cs_Nfeval store) (cv_chi_params_init v))
         (\<lambda>chi_params_all.
       Inr \<lparr>cr_value = val, cr_output = output, cr_chi_params_init = cv_chi_params_init v,
            cr_store = store\<lparr>cs_Nfeval := cs_Nfeval store + 1, cs_value_all := value_all,
                              cs_chi_params_all := chi_params_all\<rparr>\<rparr>))))"

end
